theory Spec2Isabelle
  imports Main "HOL-Library.Word"
begin

section \<open>The AgentEscrow contract\<close>

text \<open>
  A shallow embedding of the Solidity contract \<^verbatim>\<open>AgentEscrow\<close> (pragma 0.8.20) and of the
  part of \<^verbatim>\<open>src/index.js\<close> that decodes its answers. Every external function of the
  contract is a HOL function that takes the transaction context (\<^verbatim>\<open>msg.sender\<close>,
  \<^verbatim>\<open>block.timestamp\<close>) and the contract state and returns either a failure, in which case
  the transaction is rolled back and the state is the one before the call, or the state
  after the call. All functions are \<^verbatim>\<open>nonReentrant\<close> and the asset makes no callbacks, so a
  call is one atomic step.
\<close>

subsection \<open>Value types\<close>

type_synonym address = "160 word"
type_synonym uint256 = "256 word"
type_synonym bytes32 = "256 word"

text \<open>\<^verbatim>\<open>address(0)\<close>, the sentinel of an unassigned worker.\<close>

definition address0 :: address where
  "address0 = 0"

text \<open>
  A transaction fails by a \<^verbatim>\<open>require\<close> with its message, by the arithmetic panic of
  checked 0.8 arithmetic, or inside one of the two transfers of the asset.
\<close>

datatype failure = Revert string | Panic | PullFailed | PushFailed

text \<open>Checked addition of Solidity 0.8: an overflow panics instead of wrapping.\<close>

definition checked_add :: "uint256 \<Rightarrow> uint256 \<Rightarrow> failure + uint256" where
  "checked_add a b = (if unat a + unat b < 2 ^ 256 then Inr (a + b) else Inl Panic)"

text \<open>The time units of Solidity: \<^verbatim>\<open>n days\<close> is \<open>n * 86400\<close> seconds.\<close>

definition days :: "uint256 \<Rightarrow> uint256" where
  "days n = n * 86400"

definition MIN_AMOUNT :: uint256 where
  "MIN_AMOUNT = 1000000"

definition MAX_DURATION :: uint256 where
  "MAX_DURATION = days 30"

subsection \<open>Jobs\<close>

datatype JobStatus = Created | Funded | Completed | Disputed | Resolved | Cancelled

record Job =
  client :: address
  worker :: address
  amount :: uint256
  deadline :: uint256
  jobHash :: string
  status :: JobStatus
  createdAt :: uint256

text \<open>
  A slot of the mapping \<^verbatim>\<open>jobs\<close> that was never written reads as the record of default
  values; the first member of the enum is its default.
\<close>

definition empty_job :: Job where
  "empty_job = \<lparr>client = 0, worker = 0, amount = 0, deadline = 0, jobHash = [],
     status = Created, createdAt = 0\<rparr>"

datatype event =
    JobCreated bytes32 address uint256 string
  | JobFunded bytes32 address
  | JobAccepted bytes32 address
  | JobCompleted bytes32 address uint256
  | JobDisputed bytes32 address
  | JobCancelled bytes32 address
  | DisputeResolved bytes32 address uint256

subsection \<open>The asset\<close>

text \<open>
  Modelled from the spec: the asset contract behind \<^verbatim>\<open>IERC20 usdc\<close> and the SafeERC20
  wrappers are not part of the repository. The specification gives two primitives.
  \<open>pull\<close> moves an amount from an account into the balance the engine holds and fails if
  the source lacks the balance or has not authorised the transfer; \<open>push\<close> moves held
  balance to an account and fails if the destination rejects receipt (or if the engine
  does not hold the amount). The engine is itself an account of the asset, the one at
  \<^verbatim>\<open>address(this)\<close>, and the balance it holds is the balance of that account. A transfer
  debits the source and then credits the destination, so that a transfer of an account to
  itself leaves its balance as it was. \<open>allowance\<close> is what each account has authorised
  the engine to take.
\<close>

record asset =
  balanceOf :: "address \<Rightarrow> nat"
  allowance :: "address \<Rightarrow> nat"
  rejects :: "address \<Rightarrow> bool"

definition move :: "(address \<Rightarrow> nat) \<Rightarrow> address \<Rightarrow> address \<Rightarrow> nat \<Rightarrow> address \<Rightarrow> nat" where
  "move bal src dst n = (let debited = bal(src := bal src - n) in debited(dst := debited dst + n))"

definition pull :: "asset \<Rightarrow> address \<Rightarrow> address \<Rightarrow> nat \<Rightarrow> failure + asset" where
  "pull t engine src n =
     (if balanceOf t src < n \<or> allowance t src < n then Inl PullFailed
      else Inr (t\<lparr>balanceOf := move (balanceOf t) src engine n,
                  allowance := (allowance t)(src := allowance t src - n)\<rparr>))"

definition push :: "asset \<Rightarrow> address \<Rightarrow> address \<Rightarrow> nat \<Rightarrow> failure + asset" where
  "push t engine dst n =
     (if rejects t dst \<or> balanceOf t engine < n then Inl PushFailed
      else Inr (t\<lparr>balanceOf := move (balanceOf t) engine dst n\<rparr>))"

subsection \<open>Contract state\<close>

text \<open>
  The storage of the contract, the asset it was constructed with, its own address
  \<^verbatim>\<open>address(this)\<close> and the log of the events it has emitted.
\<close>

record AgentEscrow =
  this_address :: address
  usdc :: asset
  jobs :: "bytes32 \<Rightarrow> Job"
  agentJobs :: "address \<Rightarrow> bytes32 list"
  jobCount :: uint256
  events :: "event list"

text \<open>\<^verbatim>\<open>usdc.balanceOf(address(this))\<close>: the balance the engine holds.\<close>

definition held :: "AgentEscrow \<Rightarrow> nat" where
  "held s = balanceOf (usdc s) (this_address s)"

text \<open>
  The state after the constructor of the contract at address \<open>a\<close>, over an asset in which
  that account holds nothing yet.
\<close>

definition deployed :: "address \<Rightarrow> asset \<Rightarrow> AgentEscrow" where
  "deployed a t = \<lparr>this_address = a, usdc = t\<lparr>balanceOf := (balanceOf t)(a := 0)\<rparr>,
     jobs = (\<lambda>_. empty_job), agentJobs = (\<lambda>_. []), jobCount = 0, events = []\<rparr>"

text \<open>
  \<^verbatim>\<open>keccak256(abi.encodePacked(msg.sender, worker, amount, block.timestamp, jobCount))\<close>
  is a primitive of the language. The functions below take it as the parameter \<open>H\<close>.
\<close>

type_synonym hashfn = "address \<Rightarrow> address \<Rightarrow> uint256 \<Rightarrow> uint256 \<Rightarrow> uint256 \<Rightarrow> bytes32"

subsection \<open>External functions\<close>

definition createJob ::
  "hashfn \<Rightarrow> address \<Rightarrow> uint256 \<Rightarrow> address \<Rightarrow> uint256 \<Rightarrow> uint256 \<Rightarrow> string \<Rightarrow> AgentEscrow
     \<Rightarrow> failure + (bytes32 \<times> AgentEscrow)" where
  "createJob H sender now wkr amt duration jh s =
     (if \<not> MIN_AMOUNT \<le> amt then Inl (Revert ''Amount too small'')
      else if \<not> (0 < duration \<and> duration \<le> MAX_DURATION) then Inl (Revert ''Invalid duration'')
      else if \<not> 0 < length jh then Inl (Revert ''Job hash required'')
      else case checked_add (jobCount s) 1 of
        Inl e \<Rightarrow> Inl e
      | Inr count' \<Rightarrow>
          let jobId = H sender wkr amt now (jobCount s) in
          (case checked_add now duration of
            Inl e \<Rightarrow> Inl e
          | Inr dl \<Rightarrow>
              (case pull (usdc s) (this_address s) sender (unat amt) of
                Inl e \<Rightarrow> Inl e
              | Inr t' \<Rightarrow>
                  Inr (jobId,
                    s\<lparr>usdc := t',
                      jobs := (jobs s)(jobId :=
                        \<lparr>client = sender, worker = wkr, amount = amt, deadline = dl,
                         jobHash = jh, status = Created, createdAt = now\<rparr>),
                      agentJobs := (agentJobs s)(sender := agentJobs s sender @ [jobId]),
                      jobCount := count',
                      events := events s @ [JobCreated jobId sender amt jh,
                                            JobFunded jobId sender]\<rparr>))))"

definition acceptJob :: "address \<Rightarrow> uint256 \<Rightarrow> bytes32 \<Rightarrow> AgentEscrow \<Rightarrow> failure + AgentEscrow" where
  "acceptJob sender now jobId s =
     (let job = jobs s jobId in
      if status job \<noteq> Created then Inl (Revert ''Job not available'')
      else if worker job \<noteq> address0 then Inl (Revert ''Worker already assigned'')
      else if \<not> sender \<noteq> client job then Inl (Revert ''Client cannot be worker'')
      else if \<not> now < deadline job then Inl (Revert ''Job expired'')
      else Inr (s\<lparr>jobs := (jobs s)(jobId := job\<lparr>worker := sender, status := Funded\<rparr>),
                  agentJobs := (agentJobs s)(sender := agentJobs s sender @ [jobId]),
                  events := events s @ [JobAccepted jobId sender]\<rparr>))"

definition completeJob :: "address \<Rightarrow> bytes32 \<Rightarrow> AgentEscrow \<Rightarrow> failure + AgentEscrow" where
  "completeJob sender jobId s =
     (let job = jobs s jobId in
      if \<not> sender = client job then Inl (Revert ''Only client can complete'')
      else if \<not> (status job = Funded \<or> status job = Created) then Inl (Revert ''Invalid status'')
      else if \<not> worker job \<noteq> address0 then Inl (Revert ''No worker assigned'')
      else case push (usdc s) (this_address s) (worker job) (unat (amount job)) of
        Inl e \<Rightarrow> Inl e
      | Inr t' \<Rightarrow>
          Inr (s\<lparr>usdc := t',
                 jobs := (jobs s)(jobId := job\<lparr>status := Completed\<rparr>),
                 events := events s @ [JobCompleted jobId (worker job) (amount job)]\<rparr>))"

definition cancelJob :: "address \<Rightarrow> uint256 \<Rightarrow> bytes32 \<Rightarrow> AgentEscrow \<Rightarrow> failure + AgentEscrow" where
  "cancelJob sender now jobId s =
     (let job = jobs s jobId in
      if \<not> sender = client job then Inl (Revert ''Only client can cancel'')
      else if \<not> status job = Created then Inl (Revert ''Cannot cancel'')
      else if \<not> (worker job = address0 \<or> deadline job < now)
        then Inl (Revert ''Worker assigned, use dispute'')
      else case push (usdc s) (this_address s) (client job) (unat (amount job)) of
        Inl e \<Rightarrow> Inl e
      | Inr t' \<Rightarrow>
          Inr (s\<lparr>usdc := t',
                 jobs := (jobs s)(jobId := job\<lparr>status := Cancelled\<rparr>),
                 events := events s @ [JobCancelled jobId (client job)]\<rparr>))"

definition disputeJob :: "address \<Rightarrow> bytes32 \<Rightarrow> AgentEscrow \<Rightarrow> failure + AgentEscrow" where
  "disputeJob sender jobId s =
     (let job = jobs s jobId in
      if \<not> (sender = client job \<or> sender = worker job) then Inl (Revert ''Not a party'')
      else if \<not> status job = Funded then Inl (Revert ''Cannot dispute'')
      else Inr (s\<lparr>jobs := (jobs s)(jobId := job\<lparr>status := Disputed\<rparr>),
                  events := events s @ [JobDisputed jobId sender]\<rparr>))"

definition resolveDispute :: "uint256 \<Rightarrow> bytes32 \<Rightarrow> AgentEscrow \<Rightarrow> failure + AgentEscrow" where
  "resolveDispute now jobId s =
     (let job = jobs s jobId in
      if \<not> status job = Disputed then Inl (Revert ''Not disputed'')
      else case checked_add (deadline job) (days 7) of
        Inl e \<Rightarrow> Inl e
      | Inr window_end \<Rightarrow>
          if \<not> window_end < now then Inl (Revert ''Resolution period not ended'')
          else (case push (usdc s) (this_address s) (client job) (unat (amount job)) of
            Inl e \<Rightarrow> Inl e
          | Inr t' \<Rightarrow>
              Inr (s\<lparr>usdc := t',
                     jobs := (jobs s)(jobId := job\<lparr>status := Resolved\<rparr>),
                     events := events s @ [DisputeResolved jobId (client job) (amount job)]\<rparr>)))"

definition getJob ::
  "AgentEscrow \<Rightarrow> bytes32
     \<Rightarrow> address \<times> address \<times> uint256 \<times> uint256 \<times> string \<times> JobStatus \<times> uint256" where
  "getJob s jobId =
     (let job = jobs s jobId in
      (client job, worker job, amount job, deadline job, jobHash job, status job,
       createdAt job))"

definition getAgentJobs :: "AgentEscrow \<Rightarrow> address \<Rightarrow> bytes32 list" where
  "getAgentJobs s agent = agentJobs s agent"

subsection \<open>The client's view of the contract\<close>

text \<open>
  \<^verbatim>\<open>src/index.js\<close> declares the interface it uses as a list of signatures, one string each
  (the functions first, two events last), and decodes the \<^verbatim>\<open>uint8\<close> status of \<^verbatim>\<open>getJob\<close> by
  indexing \<^verbatim>\<open>JOB_STATUS\<close>; an index outside the array reads as \<^verbatim>\<open>undefined\<close>, here \<open>None\<close>.
\<close>

definition ESCROW_ABI :: "string list" where
  "ESCROW_ABI =
    [''function createJob(address worker, uint256 amount, uint256 duration, string calldata jobHash) external returns (bytes32)'',
     ''function acceptJob(bytes32 jobId) external'',
     ''function completeJob(bytes32 jobId) external'',
     ''function cancelJob(bytes32 jobId) external'',
     ''function disputeJob(bytes32 jobId) external'',
     ''function resolveDispute(bytes32 jobId) external'',
     ''function getJob(bytes32 jobId) external view returns (address client, address worker, uint256 amount, uint256 deadline, string memory jobHash, uint8 status, uint256 createdAt)'',
     ''function getAgentJobs(address agent) external view returns (bytes32[] memory)'',
     ''event JobCreated(bytes32 indexed jobId, address indexed client, uint256 amount, string jobHash)'',
     ''event JobCompleted(bytes32 indexed jobId, address indexed worker, uint256 payout)'']"

text \<open>The name a signature declares: the word between the keyword and the parenthesis.\<close>

definition abi_name :: "string \<Rightarrow> string" where
  "abi_name sig = takeWhile (\<lambda>c. c \<noteq> CHR ''('') (drop 1 (dropWhile (\<lambda>c. c \<noteq> CHR '' '') sig))"

definition JOB_STATUS :: "string list" where
  "JOB_STATUS = [''Created'', ''Funded'', ''Completed'', ''Disputed'', ''Resolved'', ''Cancelled'']"

text \<open>The ABI encoding of the enum: the position of the member in its declaration.\<close>

fun status_code :: "JobStatus \<Rightarrow> nat" where
  "status_code Created = 0"
| "status_code Funded = 1"
| "status_code Completed = 2"
| "status_code Disputed = 3"
| "status_code Resolved = 4"
| "status_code Cancelled = 5"

definition status_name :: "JobStatus \<Rightarrow> string option" where
  "status_name st =
     (if status_code st < length JOB_STATUS then Some (JOB_STATUS ! status_code st) else None)"

text \<open>
  \<^verbatim>\<open>getJob\<close> of \<^verbatim>\<open>src/index.js\<close> turns the answer of the contract into an object. The two
  times go through \<^verbatim>\<open>new Date(Number(t) * 1000).toISOString()\<close>, which throws a RangeError
  if the time in milliseconds is beyond 8640000000000000; \<open>js_date\<close> gives the milliseconds
  and \<open>None\<close> for the exception. The renderings of the date and of the amount as text
  (\<^verbatim>\<open>toISOString\<close>, \<^verbatim>\<open>formatUnits\<close>) belong to the libraries and are left out: the view keeps
  the milliseconds and the amount in minor units.
\<close>

definition js_date :: "uint256 \<Rightarrow> nat option" where
  "js_date t = (if unat t * 1000 \<le> 8640000000000000 then Some (unat t * 1000) else None)"

record JobView =
  view_jobId :: bytes32
  view_client :: address
  view_worker :: address
  view_amount :: uint256
  view_deadline :: nat
  view_jobHash :: string
  view_status :: "string option"
  view_createdAt :: nat

definition getJob_js :: "AgentEscrow \<Rightarrow> bytes32 \<Rightarrow> JobView option" where
  "getJob_js s jobId =
     (case getJob s jobId of (cl, wk, am, dl, jh, st, cr) \<Rightarrow>
        (case js_date dl of
           None \<Rightarrow> None
         | Some dl_ms \<Rightarrow>
             (case js_date cr of
                None \<Rightarrow> None
              | Some cr_ms \<Rightarrow>
                  Some \<lparr>view_jobId = jobId, view_client = cl, view_worker = wk,
                        view_amount = am, view_deadline = dl_ms, view_jobHash = jh,
                        view_status = status_name st, view_createdAt = cr_ms\<rparr>)))"

subsection \<open>Transactions and runs\<close>

text \<open>
  The state-changing functions of the contract, in the order of the source. The contract
  has no fallback function: a transaction is a call of one of these.
\<close>

datatype call =
    CreateJob address uint256 uint256 string
  | AcceptJob bytes32
  | CompleteJob bytes32
  | CancelJob bytes32
  | DisputeJob bytes32
  | ResolveDispute bytes32

fun call_name :: "call \<Rightarrow> string" where
  "call_name (CreateJob wkr amt duration jh) = ''createJob''"
| "call_name (AcceptJob jobId) = ''acceptJob''"
| "call_name (CompleteJob jobId) = ''completeJob''"
| "call_name (CancelJob jobId) = ''cancelJob''"
| "call_name (DisputeJob jobId) = ''disputeJob''"
| "call_name (ResolveDispute jobId) = ''resolveDispute''"

fun exec :: "hashfn \<Rightarrow> address \<Rightarrow> uint256 \<Rightarrow> call \<Rightarrow> AgentEscrow \<Rightarrow> failure + AgentEscrow" where
  "exec H sender now (CreateJob wkr amt duration jh) s =
     (case createJob H sender now wkr amt duration jh s of
        Inl e \<Rightarrow> Inl e | Inr (jobId, s') \<Rightarrow> Inr s')"
| "exec H sender now (AcceptJob jobId) s = acceptJob sender now jobId s"
| "exec H sender now (CompleteJob jobId) s = completeJob sender jobId s"
| "exec H sender now (CancelJob jobId) s = cancelJob sender now jobId s"
| "exec H sender now (DisputeJob jobId) s = disputeJob sender jobId s"
| "exec H sender now (ResolveDispute jobId) s = resolveDispute now jobId s"

text \<open>
  Three facts about the ledger that runs the contract are assumed of every transaction.
  Its sender is an account, never the sentinel \<^verbatim>\<open>address(0)\<close>. Its sender is not the
  contract itself, which makes no calls. And the identifier that \<^verbatim>\<open>createJob\<close> derives by
  \<^verbatim>\<open>keccak256\<close> from the sender, the arguments, the time and the counter has not been
  derived before, so that it names a slot of \<^verbatim>\<open>jobs\<close> that was never written. The contract
  checks none of them.
\<close>

fun fresh_id :: "hashfn \<Rightarrow> address \<Rightarrow> uint256 \<Rightarrow> call \<Rightarrow> AgentEscrow \<Rightarrow> bool" where
  "fresh_id H sender now (CreateJob wkr amt duration jh) s =
     (jobs s (H sender wkr amt now (jobCount s)) = empty_job)"
| "fresh_id H sender now c s = True"

text \<open>
  A step of the system is a transaction that succeeds, or a change of the asset made
  outside the engine: the balances of the accounts, their allowances, whether they accept
  receipt. The engine authorises nobody to take from its account, so from outside its own
  balance can only grow, by what others transfer to it.
\<close>

inductive step :: "hashfn \<Rightarrow> AgentEscrow \<Rightarrow> AgentEscrow \<Rightarrow> bool" for H :: hashfn where
  transaction:
    "sender \<noteq> address0 \<Longrightarrow> fresh_id H sender now c s \<Longrightarrow> exec H sender now c s = Inr s'
       \<Longrightarrow> sender \<noteq> this_address s \<Longrightarrow> step H s s'"
| outside:
    "balanceOf (usdc s) (this_address s) \<le> b (this_address s)
       \<Longrightarrow> step H s (s\<lparr>usdc := (usdc s)\<lparr>balanceOf := b, allowance := a, rejects := r\<rparr>\<rparr>)"

inductive steps :: "hashfn \<Rightarrow> AgentEscrow \<Rightarrow> AgentEscrow \<Rightarrow> bool" for H :: hashfn where
  here: "steps H s s"
| later: "steps H s s' \<Longrightarrow> step H s' s'' \<Longrightarrow> steps H s s''"

definition reachable :: "hashfn \<Rightarrow> AgentEscrow \<Rightarrow> bool" where
  "reachable H s = (\<exists>a t. steps H (deployed a t) s)"

text \<open>
  The same runs, with the total that the account of the engine has been given from
  outside along the run.
\<close>

inductive received :: "hashfn \<Rightarrow> AgentEscrow \<Rightarrow> AgentEscrow \<Rightarrow> nat \<Rightarrow> bool" for H :: hashfn where
  nothing: "received H s s 0"
| call:
    "received H s s' g \<Longrightarrow> sender \<noteq> address0 \<Longrightarrow> fresh_id H sender now c s'
       \<Longrightarrow> exec H sender now c s' = Inr s'' \<Longrightarrow> sender \<noteq> this_address s'
       \<Longrightarrow> received H s s'' g"
| gift:
    "received H s s' g \<Longrightarrow> b (this_address s') = balanceOf (usdc s') (this_address s') + d
       \<Longrightarrow> received H s (s'\<lparr>usdc := (usdc s')\<lparr>balanceOf := b, allowance := a, rejects := r\<rparr>\<rparr>)
             (g + d)"

subsection \<open>Custody\<close>

text \<open>
  What the engine owes for a job: its amount while the job is Created, Funded or Disputed,
  nothing once it is Completed, Resolved or Cancelled. \<open>locked\<close> adds this up over all
  slots of \<^verbatim>\<open>jobs\<close>; a slot that was never written counts 0.
\<close>

definition in_custody :: "Job \<Rightarrow> nat" where
  "in_custody job =
     (if status job = Created \<or> status job = Funded \<or> status job = Disputed
      then unat (amount job) else 0)"

definition locked :: "AgentEscrow \<Rightarrow> nat" where
  "locked s = (\<Sum>jobId\<in>UNIV. in_custody (jobs s jobId))"

definition terminal :: "JobStatus \<Rightarrow> bool" where
  "terminal st = (st = Completed \<or> st = Resolved \<or> st = Cancelled)"

text \<open>
  What stays in the engine for good: the amount of a Completed job whose worker is the
  engine's own address, which \<^verbatim>\<open>completeJob\<close> has transferred from the engine to itself.
\<close>

definition self_kept :: "address \<Rightarrow> Job \<Rightarrow> nat" where
  "self_kept engine job =
     (if status job = Completed \<and> worker job = engine then unat (amount job) else 0)"

definition self_paid :: "AgentEscrow \<Rightarrow> nat" where
  "self_paid s = (\<Sum>jobId\<in>UNIV. self_kept (this_address s) (jobs s jobId))"

text \<open>No job that exists has the engine as its client.\<close>

definition clients_outside :: "AgentEscrow \<Rightarrow> bool" where
  "clients_outside s = (\<forall>j. jobs s j \<noteq> empty_job \<longrightarrow> client (jobs s j) \<noteq> this_address s)"

text \<open>The change of the held balance that a successful call makes.\<close>

fun custody_flow :: "call \<Rightarrow> AgentEscrow \<Rightarrow> int" where
  "custody_flow (CreateJob wkr amt duration jh) s = int (unat amt)"
| "custody_flow (AcceptJob jobId) s = 0"
| "custody_flow (CompleteJob jobId) s =
     (if worker (jobs s jobId) = this_address s then 0
      else - int (unat (amount (jobs s jobId))))"
| "custody_flow (CancelJob jobId) s = - int (unat (amount (jobs s jobId)))"
| "custody_flow (DisputeJob jobId) s = 0"
| "custody_flow (ResolveDispute jobId) s = - int (unat (amount (jobs s jobId)))"




text \<open>The fields of a job that are written at creation only.\<close>

definition same_terms :: "Job \<Rightarrow> Job \<Rightarrow> bool" where
  "same_terms a b =
     (client a = client b \<and> amount a = amount b \<and> deadline a = deadline b
      \<and> jobHash a = jobHash b \<and> createdAt a = createdAt b)"

text \<open>An identifier was created if the log holds a JobCreated event for it.\<close>

definition was_created :: "AgentEscrow \<Rightarrow> bytes32 \<Rightarrow> bool" where
  "was_created s j = (\<exists>e \<in> set (events s). case e of JobCreated jobId c a h \<Rightarrow> jobId = j | _ \<Rightarrow> False)"

subsection \<open>Error kinds\<close>

text \<open>
  Modelled from the spec: the kinds of error. The contract reports a failed
  \<^verbatim>\<open>require\<close> by its message only; the error taxonomy of the specification sorts the
  messages: a rejected argument is a ValidationError, a caller without the role an
  AuthorizationError, a deadline or window that is not met a TimingError, and a job in the
  wrong condition a StateError. A failed pull is InsufficientFunds, a failed push
  TransferFailure.
\<close>

datatype error_kind =
    ValidationError | AuthorizationError | StateError | TimingError
  | InsufficientFunds | TransferFailure | ArithmeticPanic

definition message_kind :: "string \<Rightarrow> error_kind" where
  "message_kind m =
     (if m = ''Amount too small'' \<or> m = ''Invalid duration'' \<or> m = ''Job hash required''
        then ValidationError
      else if m = ''Client cannot be worker'' \<or> m = ''Only client can complete''
          \<or> m = ''Only client can cancel'' \<or> m = ''Not a party''
        then AuthorizationError
      else if m = ''Job expired'' \<or> m = ''Resolution period not ended''
        then TimingError
      else StateError)"

fun kind :: "failure \<Rightarrow> error_kind" where
  "kind (Revert m) = message_kind m"
| "kind Panic = ArithmeticPanic"
| "kind PullFailed = InsufficientFunds"
| "kind PushFailed = TransferFailure"

subsection \<open>The status graph\<close>

text \<open>
  The moves of a job's status that the functions of the contract make: \<^verbatim>\<open>acceptJob\<close> from
  Created to Funded, \<^verbatim>\<open>completeJob\<close> from Funded or Created to Completed, \<^verbatim>\<open>cancelJob\<close> from
  Created to Cancelled, \<^verbatim>\<open>disputeJob\<close> from Funded to Disputed, \<^verbatim>\<open>resolveDispute\<close> from
  Disputed to Resolved.
\<close>

definition transition :: "JobStatus \<Rightarrow> JobStatus \<Rightarrow> bool" where
  "transition a b =
     (a = Created \<and> (b = Funded \<or> b = Completed \<or> b = Cancelled)
      \<or> a = Funded \<and> (b = Completed \<or> b = Disputed)
      \<or> a = Disputed \<and> b = Resolved)"

text \<open>
  The graph as the specification draws it:
  Created to Funded, Funded to Completed or Disputed, Disputed to Resolved, Created to
  Cancelled.
\<close>

definition spec_transition :: "JobStatus \<Rightarrow> JobStatus \<Rightarrow> bool" where
  "spec_transition a b =
     (a = Created \<and> (b = Funded \<or> b = Cancelled)
      \<or> a = Funded \<and> (b = Completed \<or> b = Disputed)
      \<or> a = Disputed \<and> b = Resolved)"

text \<open>How far along the graph a status is; every move of the contract raises it.\<close>

fun rank :: "JobStatus \<Rightarrow> nat" where
  "rank Created = 0"
| "rank Funded = 1"
| "rank Disputed = 2"
| "rank Completed = 3"
| "rank Resolved = 3"
| "rank Cancelled = 3"

subsection \<open>Concrete runs\<close>

text \<open>
  A stand-in for the hash in concrete runs: the counter itself, which never repeats. The
  engine is the account 9. In the asset below account 1 owns and has authorised 5000000
  units, and account 3 rejects receipt.
\<close>

definition counter_id :: hashfn where
  "counter_id c w a t n = n"

definition demo_asset :: asset where
  "demo_asset = \<lparr>balanceOf = (\<lambda>_. 0)(1 := 5000000),
     allowance = (\<lambda>_. 0)(1 := 5000000), rejects = (\<lambda>_. False)(3 := True)\<rparr>"

definition demo_deployed :: AgentEscrow where
  "demo_deployed = deployed 9 demo_asset"

text \<open>
  Job 0, of amount 1000000, created by account 1 at time 100 for 30 days: with no worker,
  for worker 2, for worker 3, and for the engine itself as worker.
\<close>

definition demo_open :: AgentEscrow where
  "demo_open = projr (exec counter_id 1 100 (CreateJob 0 1000000 2592000 ''h'') demo_deployed)"

definition demo_assigned :: AgentEscrow where
  "demo_assigned = projr (exec counter_id 1 100 (CreateJob 2 1000000 2592000 ''h'') demo_deployed)"

definition demo_rejecting :: AgentEscrow where
  "demo_rejecting = projr (exec counter_id 1 100 (CreateJob 3 1000000 2592000 ''h'') demo_deployed)"

definition demo_self :: AgentEscrow where
  "demo_self = projr (exec counter_id 1 100 (CreateJob 9 1000000 2592000 ''h'') demo_deployed)"

text \<open>The open job accepted by account 2 at time 200, and then disputed by account 2.\<close>

definition demo_funded :: AgentEscrow where
  "demo_funded = projr (exec counter_id 2 200 (AcceptJob 0) demo_open)"

definition demo_disputed :: AgentEscrow where
  "demo_disputed = projr (exec counter_id 2 300 (DisputeJob 0) demo_funded)"

text \<open>The open job after the account of its client has begun to reject receipt.\<close>

definition demo_refused :: AgentEscrow where
  "demo_refused = demo_open\<lparr>usdc := (usdc demo_open)\<lparr>balanceOf := balanceOf (usdc demo_open),
     allowance := allowance (usdc demo_open),
     rejects := (rejects (usdc demo_open))(1 := True)\<rparr>\<rparr>"

text \<open>
  The job for worker 2, and the job for the engine itself, each completed by account 1 at
  time 200.
\<close>

definition demo_completed :: AgentEscrow where
  "demo_completed = projr (exec counter_id 1 200 (CompleteJob 0) demo_assigned)"


section \<open>What a successful call has checked and done\<close>

text \<open>
  One equivalence for each function: the call succeeds exactly if all its checks pass and
  the transfer goes through, and then the state after it is the one given.
\<close>

lemma checked_add_Inr:
  "checked_add a b = Inr c \<longleftrightarrow> unat a + unat b < 2 ^ 256 \<and> c = a + b"
  by (auto simp: checked_add_def)

lemma unat_checked_sum:
  "unat a + unat b < 2 ^ 256 \<Longrightarrow> unat (a + b :: uint256) = unat a + unat b"
  by (simp add: unat_add_lem [THEN iffD1])

lemma seven_days: "unat (days 7) = 604800"
  by (simp add: days_def)

lemma move_self: "n \<le> bal a \<Longrightarrow> move bal a a n = bal"
  by (auto simp: move_def Let_def fun_eq_iff)

lemma move_apart:
  "src \<noteq> dst \<Longrightarrow> move bal src dst n = bal(src := bal src - n, dst := bal dst + n)"
  by (auto simp: move_def Let_def fun_eq_iff)

lemma move_paid:
  assumes "b' = move b engine payee n" and "n \<le> b engine" and "payee \<noteq> engine \<or> n = 0"
  shows "b' engine + n = b engine"
    and "b' = b(engine := b engine - n, payee := b payee + n)"
  using assms by (auto simp: move_def Let_def)

lemma push_Inr:
  "push t engine dst n = Inr t' \<longleftrightarrow>
     \<not> rejects t dst \<and> n \<le> balanceOf t engine \<and>
     t' = t\<lparr>balanceOf := move (balanceOf t) engine dst n\<rparr>"
  by (auto simp: push_def)

lemma createJob_Inr:
  "createJob H sender now wkr amt duration jh s = Inr (jobId, s') \<longleftrightarrow>
     MIN_AMOUNT \<le> amt \<and> 0 < duration \<and> duration \<le> MAX_DURATION \<and> jh \<noteq> [] \<and>
     unat (jobCount s) + 1 < 2 ^ 256 \<and> unat now + unat duration < 2 ^ 256 \<and>
     unat amt \<le> balanceOf (usdc s) sender \<and> unat amt \<le> allowance (usdc s) sender \<and>
     jobId = H sender wkr amt now (jobCount s) \<and>
     s' = s\<lparr>usdc := (usdc s)\<lparr>
               balanceOf := move (balanceOf (usdc s)) sender (this_address s) (unat amt),
               allowance := (allowance (usdc s))(sender := allowance (usdc s) sender - unat amt)\<rparr>,
             jobs := (jobs s)(jobId :=
               \<lparr>client = sender, worker = wkr, amount = amt, deadline = now + duration,
                jobHash = jh, status = Created, createdAt = now\<rparr>),
             agentJobs := (agentJobs s)(sender := agentJobs s sender @ [jobId]),
             jobCount := jobCount s + 1,
             events := events s @ [JobCreated jobId sender amt jh, JobFunded jobId sender]\<rparr>"
  by (auto simp: createJob_def Let_def checked_add_def pull_def split: sum.splits if_splits)

lemma acceptJob_Inr:
  "acceptJob sender now jobId s = Inr s' \<longleftrightarrow>
     status (jobs s jobId) = Created \<and> worker (jobs s jobId) = address0 \<and>
     sender \<noteq> client (jobs s jobId) \<and> now < deadline (jobs s jobId) \<and>
     s' = s\<lparr>jobs := (jobs s)(jobId := (jobs s jobId)\<lparr>worker := sender, status := Funded\<rparr>),
             agentJobs := (agentJobs s)(sender := agentJobs s sender @ [jobId]),
             events := events s @ [JobAccepted jobId sender]\<rparr>"
  by (auto simp: acceptJob_def Let_def)

lemma completeJob_Inr:
  "completeJob sender jobId s = Inr s' \<longleftrightarrow>
     sender = client (jobs s jobId) \<and>
     (status (jobs s jobId) = Funded \<or> status (jobs s jobId) = Created) \<and>
     worker (jobs s jobId) \<noteq> address0 \<and>
     \<not> rejects (usdc s) (worker (jobs s jobId)) \<and> unat (amount (jobs s jobId)) \<le> held s \<and>
     s' = s\<lparr>usdc := (usdc s)\<lparr>balanceOf := move (balanceOf (usdc s)) (this_address s)
               (worker (jobs s jobId)) (unat (amount (jobs s jobId)))\<rparr>,
             jobs := (jobs s)(jobId := (jobs s jobId)\<lparr>status := Completed\<rparr>),
             events := events s @
               [JobCompleted jobId (worker (jobs s jobId)) (amount (jobs s jobId))]\<rparr>"
  by (auto simp: completeJob_def Let_def push_def held_def split: sum.splits if_splits)

lemma cancelJob_Inr:
  "cancelJob sender now jobId s = Inr s' \<longleftrightarrow>
     sender = client (jobs s jobId) \<and> status (jobs s jobId) = Created \<and>
     (worker (jobs s jobId) = address0 \<or> deadline (jobs s jobId) < now) \<and>
     \<not> rejects (usdc s) (client (jobs s jobId)) \<and> unat (amount (jobs s jobId)) \<le> held s \<and>
     s' = s\<lparr>usdc := (usdc s)\<lparr>balanceOf := move (balanceOf (usdc s)) (this_address s)
               (client (jobs s jobId)) (unat (amount (jobs s jobId)))\<rparr>,
             jobs := (jobs s)(jobId := (jobs s jobId)\<lparr>status := Cancelled\<rparr>),
             events := events s @ [JobCancelled jobId (client (jobs s jobId))]\<rparr>"
  by (auto simp: cancelJob_def Let_def push_def held_def split: sum.splits if_splits)

lemma disputeJob_Inr:
  "disputeJob sender jobId s = Inr s' \<longleftrightarrow>
     (sender = client (jobs s jobId) \<or> sender = worker (jobs s jobId)) \<and>
     status (jobs s jobId) = Funded \<and>
     s' = s\<lparr>jobs := (jobs s)(jobId := (jobs s jobId)\<lparr>status := Disputed\<rparr>),
             events := events s @ [JobDisputed jobId sender]\<rparr>"
  by (auto simp: disputeJob_def Let_def)

lemma resolveDispute_Inr:
  "resolveDispute now jobId s = Inr s' \<longleftrightarrow>
     status (jobs s jobId) = Disputed \<and>
     unat (deadline (jobs s jobId)) + 604800 < unat now \<and>
     \<not> rejects (usdc s) (client (jobs s jobId)) \<and> unat (amount (jobs s jobId)) \<le> held s \<and>
     s' = s\<lparr>usdc := (usdc s)\<lparr>balanceOf := move (balanceOf (usdc s)) (this_address s)
               (client (jobs s jobId)) (unat (amount (jobs s jobId)))\<rparr>,
             jobs := (jobs s)(jobId := (jobs s jobId)\<lparr>status := Resolved\<rparr>),
             events := events s @
               [DisputeResolved jobId (client (jobs s jobId)) (amount (jobs s jobId))]\<rparr>"
proof -
  have "unat now < 2 ^ 256"
    using unsigned_less [of now, where ?'a = nat] by simp
  then show ?thesis
    by (auto simp: resolveDispute_def Let_def push_def held_def checked_add_def seven_days
        word_less_nat_alt unat_checked_sum split: sum.splits if_splits)
qed

text \<open>The balance the engine holds after a transfer to it and after a transfer from it.\<close>

lemma held_moved_in:
  "src \<noteq> this_address s \<Longrightarrow>
     move (balanceOf (usdc s)) src (this_address s) n (this_address s) = held s + n"
  by (simp add: move_def Let_def held_def)

lemma held_moved_out:
  "n \<le> held s \<Longrightarrow>
     move (balanceOf (usdc s)) (this_address s) dst n (this_address s)
       = (if dst = this_address s then held s else held s - n)"
  by (simp add: move_def Let_def held_def)

text \<open>The kind of each message of the contract, and the names of its calls.\<close>

lemma kind_simps:
  "kind (Revert ''Amount too small'') = ValidationError"
  "kind (Revert ''Invalid duration'') = ValidationError"
  "kind (Revert ''Job hash required'') = ValidationError"
  "kind (Revert ''Job not available'') = StateError"
  "kind (Revert ''Worker already assigned'') = StateError"
  "kind (Revert ''Client cannot be worker'') = AuthorizationError"
  "kind (Revert ''Job expired'') = TimingError"
  "kind (Revert ''Only client can complete'') = AuthorizationError"
  "kind (Revert ''Invalid status'') = StateError"
  "kind (Revert ''No worker assigned'') = StateError"
  "kind (Revert ''Only client can cancel'') = AuthorizationError"
  "kind (Revert ''Cannot cancel'') = StateError"
  "kind (Revert ''Worker assigned, use dispute'') = StateError"
  "kind (Revert ''Not a party'') = AuthorizationError"
  "kind (Revert ''Cannot dispute'') = StateError"
  "kind (Revert ''Not disputed'') = StateError"
  "kind (Revert ''Resolution period not ended'') = TimingError"
  by (simp_all add: message_kind_def)

lemma call_name_range: "call_name c \<noteq> ''extendDeadline''"
  by (cases c) simp_all

section \<open>Conservation of custody\<close>

text \<open>
  Writing one slot of \<^verbatim>\<open>jobs\<close> changes a sum over all slots by the difference at that slot.
\<close>

lemma sum_slot:
  fixes f :: "Job \<Rightarrow> nat"
  assumes "jobs s' = (jobs s)(j := x)"
  shows "(\<Sum>k\<in>UNIV. f (jobs s' k)) + f (jobs s j) = (\<Sum>k\<in>UNIV. f (jobs s k)) + f x"
proof -
  have a: "(\<Sum>k\<in>UNIV. f (jobs s k)) = f (jobs s j) + (\<Sum>k\<in>UNIV - {j}. f (jobs s k))"
    by (rule sum.remove) simp_all
  have b: "(\<Sum>k\<in>UNIV. f (jobs s' k)) = f (jobs s' j) + (\<Sum>k\<in>UNIV - {j}. f (jobs s' k))"
    by (rule sum.remove) simp_all
  have c: "(\<Sum>k\<in>UNIV - {j}. f (jobs s' k)) = (\<Sum>k\<in>UNIV - {j}. f (jobs s k))"
    by (rule sum.cong) (simp_all add: assms)
  show ?thesis using a b c by (simp add: assms)
qed

lemma locked_update:
  assumes "jobs s' = (jobs s)(j := x)"
  shows "locked s' + in_custody (jobs s j) = locked s + in_custody x"
  unfolding locked_def using assms by (rule sum_slot)

lemma self_paid_update:
  assumes "jobs s' = (jobs s)(j := x)" and "this_address s' = this_address s"
  shows "self_paid s' + self_kept (this_address s) (jobs s j)
    = self_paid s + self_kept (this_address s) x"
  unfolding self_paid_def assms(2) using assms(1) by (rule sum_slot)

lemma in_custody_le_locked: "in_custody (jobs s j) \<le> locked s"
proof -
  have "locked s = in_custody (jobs s j) + (\<Sum>k\<in>UNIV - {j}. in_custody (jobs s k))"
    unfolding locked_def by (rule sum.remove) simp_all
  then show ?thesis by simp
qed

lemma in_custody_empty: "in_custody empty_job = 0"
  by (simp add: in_custody_def empty_job_def)

lemma self_kept_empty: "self_kept a empty_job = 0"
  by (simp add: self_kept_def empty_job_def)

lemma exec_this: "exec H sender now c s = Inr s' \<Longrightarrow> this_address s' = this_address s"
  by (cases c)
    (auto simp: createJob_Inr acceptJob_Inr completeJob_Inr cancelJob_Inr disputeJob_Inr
      resolveDispute_Inr split: sum.splits)

text \<open>What a successful call does to the balance the engine holds.\<close>

lemma exec_flow:
  assumes "exec H sender now c s = Inr s'" and "sender \<noteq> this_address s"
    and "clients_outside s"
  shows "int (held s') = int (held s) + custody_flow c s"
proof (cases c)
  case (CreateJob wkr amt duration jh)
  with assms(1) obtain jobId where
    "createJob H sender now wkr amt duration jh s = Inr (jobId, s')"
    by (auto split: sum.splits)
  then have "held s' = move (balanceOf (usdc s)) sender (this_address s) (unat amt) (this_address s)"
    by (simp add: createJob_Inr held_def)
  with assms(2) have "held s' = held s + unat amt"
    by (simp add: held_moved_in)
  then show ?thesis
    by (simp add: CreateJob)
next
  case (AcceptJob jobId)
  with assms(1) show ?thesis
    by (simp add: acceptJob_Inr held_def)
next
  case (CompleteJob jobId)
  with assms(1) have le: "unat (amount (jobs s jobId)) \<le> held s"
    and "held s' = move (balanceOf (usdc s)) (this_address s) (worker (jobs s jobId))
        (unat (amount (jobs s jobId))) (this_address s)"
    by (simp_all add: completeJob_Inr held_def)
  then have "held s' = (if worker (jobs s jobId) = this_address s then held s
      else held s - unat (amount (jobs s jobId)))"
    by (simp add: held_moved_out)
  with le have "held s = (if worker (jobs s jobId) = this_address s then held s'
      else held s' + unat (amount (jobs s jobId)))"
    by simp
  then show ?thesis
    by (simp add: CompleteJob split: if_splits)
next
  case (CancelJob jobId)
  with assms(1) have le: "unat (amount (jobs s jobId)) \<le> held s"
    and cl: "sender = client (jobs s jobId)"
    and "held s' = move (balanceOf (usdc s)) (this_address s) (client (jobs s jobId))
        (unat (amount (jobs s jobId))) (this_address s)"
    by (simp_all add: cancelJob_Inr held_def)
  with assms(2) have "held s' = held s - unat (amount (jobs s jobId))"
    by (simp add: held_moved_out)
  with le have "held s = held s' + unat (amount (jobs s jobId))"
    by simp
  then show ?thesis
    by (simp add: CancelJob)
next
  case (DisputeJob jobId)
  with assms(1) show ?thesis
    by (simp add: disputeJob_Inr held_def)
next
  case (ResolveDispute jobId)
  with assms(1) have le: "unat (amount (jobs s jobId)) \<le> held s"
    and st: "status (jobs s jobId) = Disputed"
    and "held s' = move (balanceOf (usdc s)) (this_address s) (client (jobs s jobId))
        (unat (amount (jobs s jobId))) (this_address s)"
    by (simp_all add: resolveDispute_Inr held_def)
  moreover from st have "jobs s jobId \<noteq> empty_job"
    by (auto simp: empty_job_def)
  with assms(3) have "client (jobs s jobId) \<noteq> this_address s"
    by (simp add: clients_outside_def)
  ultimately have "held s' = held s - unat (amount (jobs s jobId))"
    by (simp add: held_moved_out)
  with le have "held s = held s' + unat (amount (jobs s jobId))"
    by simp
  then show ?thesis
    by (simp add: ResolveDispute)
qed

text \<open>What a successful call does to the two sums.\<close>

lemma exec_accounted:
  assumes "exec H sender now c s = Inr s'" and "fresh_id H sender now c s"
  shows "int (locked s' + self_paid s') = int (locked s + self_paid s) + custody_flow c s"
proof -
  note this_same = exec_this [OF assms(1)]
  show ?thesis
  proof (cases c)
    case (CreateJob wkr amt duration jh)
    with assms(1) obtain jobId where
      r: "createJob H sender now wkr amt duration jh s = Inr (jobId, s')"
      by (auto split: sum.splits)
    let ?x = "\<lparr>client = sender, worker = wkr, amount = amt, deadline = now + duration,
                  jobHash = jh, status = Created, createdAt = now\<rparr>"
    from r have j: "jobs s' = (jobs s)(jobId := ?x)"
      and i: "jobId = H sender wkr amt now (jobCount s)"
      by (simp_all add: createJob_Inr)
    from assms(2) CreateJob i have e: "jobs s jobId = empty_job"
      by simp
    have "in_custody ?x = unat amt" and "self_kept (this_address s) ?x = 0"
      by (simp_all add: in_custody_def self_kept_def)
    with locked_update [OF j] self_paid_update [OF j this_same] e
    have "locked s' = locked s + unat amt" and "self_paid s' = self_paid s"
      by (simp_all add: in_custody_empty self_kept_empty)
    then show ?thesis
      by (simp add: CreateJob)
  next
    case (AcceptJob jobId)
    with assms(1)
    have j: "jobs s' = (jobs s)(jobId := (jobs s jobId)\<lparr>worker := sender, status := Funded\<rparr>)"
      and st: "status (jobs s jobId) = Created"
      by (simp_all add: acceptJob_Inr)
    from locked_update [OF j] self_paid_update [OF j this_same] st
    have "locked s' = locked s" and "self_paid s' = self_paid s"
      by (simp_all add: in_custody_def self_kept_def)
    then show ?thesis
      by (simp add: AcceptJob)
  next
    case (CompleteJob jobId)
    with assms(1)
    have j: "jobs s' = (jobs s)(jobId := (jobs s jobId)\<lparr>status := Completed\<rparr>)"
      and st: "status (jobs s jobId) = Funded \<or> status (jobs s jobId) = Created"
      by (simp_all add: completeJob_Inr)
    from locked_update [OF j] st
    have l: "locked s = locked s' + unat (amount (jobs s jobId))"
      by (auto simp: in_custody_def)
    from self_paid_update [OF j this_same] st
    have p: "self_paid s' = self_paid s
        + (if worker (jobs s jobId) = this_address s then unat (amount (jobs s jobId)) else 0)"
      by (auto simp: self_kept_def)
    from l p show ?thesis
      by (simp add: CompleteJob)
  next
    case (CancelJob jobId)
    with assms(1)
    have j: "jobs s' = (jobs s)(jobId := (jobs s jobId)\<lparr>status := Cancelled\<rparr>)"
      and st: "status (jobs s jobId) = Created"
      by (simp_all add: cancelJob_Inr)
    from locked_update [OF j] st
    have l: "locked s = locked s' + unat (amount (jobs s jobId))"
      by (auto simp: in_custody_def)
    from self_paid_update [OF j this_same] st
    have p: "self_paid s' = self_paid s"
      by (auto simp: self_kept_def)
    from l p show ?thesis
      by (simp add: CancelJob)
  next
    case (DisputeJob jobId)
    with assms(1)
    have j: "jobs s' = (jobs s)(jobId := (jobs s jobId)\<lparr>status := Disputed\<rparr>)"
      and st: "status (jobs s jobId) = Funded"
      by (simp_all add: disputeJob_Inr)
    from locked_update [OF j] self_paid_update [OF j this_same] st
    have "locked s' = locked s" and "self_paid s' = self_paid s"
      by (simp_all add: in_custody_def self_kept_def)
    then show ?thesis
      by (simp add: DisputeJob)
  next
    case (ResolveDispute jobId)
    with assms(1)
    have j: "jobs s' = (jobs s)(jobId := (jobs s jobId)\<lparr>status := Resolved\<rparr>)"
      and st: "status (jobs s jobId) = Disputed"
      by (simp_all add: resolveDispute_Inr)
    from locked_update [OF j] st
    have l: "locked s = locked s' + unat (amount (jobs s jobId))"
      by (auto simp: in_custody_def)
    from self_paid_update [OF j this_same] st
    have p: "self_paid s' = self_paid s"
      by (auto simp: self_kept_def)
    from l p show ?thesis
      by (simp add: ResolveDispute)
  qed
qed

text \<open>The clients of the jobs are senders of transactions, so never the engine.\<close>

lemma exec_clients_outside:
  assumes "exec H sender now c s = Inr s'" and "sender \<noteq> this_address s"
    and "clients_outside s"
  shows "clients_outside s'"
proof -
  have "client (jobs s' j) \<noteq> this_address s'" if n: "jobs s' j \<noteq> empty_job" for j
  proof (cases "jobs s j = empty_job")
    case True
    with assms(1,2) n show ?thesis
      by (cases c)
        (auto simp: createJob_Inr acceptJob_Inr completeJob_Inr cancelJob_Inr disputeJob_Inr
          resolveDispute_Inr empty_job_def address0_def split: sum.splits if_splits)
  next
    case False
    with assms(3) have "client (jobs s j) \<noteq> this_address s"
      by (simp add: clients_outside_def)
    with assms(1,2) show ?thesis
      by (cases c)
        (auto simp: createJob_Inr acceptJob_Inr completeJob_Inr cancelJob_Inr disputeJob_Inr
          resolveDispute_Inr split: sum.splits if_splits)
  qed
  then show ?thesis
    by (simp add: clients_outside_def)
qed

text \<open>
  Along a run the balance the engine holds exceeds the two sums by what it held in
  excess at the start and what it has been given from outside since.
\<close>

lemma received_conserves:
  "received H s0 s g \<Longrightarrow> clients_outside s0 \<Longrightarrow>
     clients_outside s
     \<and> int (held s) - int (locked s + self_paid s)
       = int (held s0) - int (locked s0 + self_paid s0) + int g"
proof (induction rule: received.induct)
  case (nothing s)
  then show ?case by simp
next
  case (call s s' g sender now c s'')
  then have co: "clients_outside s'"
    and eq: "int (held s') - int (locked s' + self_paid s')
       = int (held s) - int (locked s + self_paid s) + int g"
    by simp_all
  from exec_flow [OF call.hyps(4,5) co] exec_accounted [OF call.hyps(4,3)] eq
    exec_clients_outside [OF call.hyps(4,5) co]
  show ?case by simp
next
  case gift
  then show ?case
    by (simp add: held_def locked_def self_paid_def clients_outside_def)
qed

lemma deployed_accounted:
  "held (deployed a t) = 0" "locked (deployed a t) = 0" "self_paid (deployed a t) = 0"
  "clients_outside (deployed a t)"
  by (simp_all add: deployed_def held_def locked_def self_paid_def clients_outside_def
      in_custody_empty self_kept_empty)

lemma received_deployed:
  assumes "received H (deployed a t) s g"
  shows "held s = locked s + self_paid s + g" and "clients_outside s"
  using received_conserves [OF assms] by (simp_all add: deployed_accounted)

lemma step_received:
  assumes "step H s' s''" and "received H s s' g"
  shows "\<exists>g'. received H s s'' g'"
  using assms
  by (cases rule: step.cases)
    (blast intro: received.call, blast dest: le_Suc_ex intro: received.gift)

lemma steps_received: "steps H s s' \<Longrightarrow> \<exists>g. received H s s' g"
  by (induction rule: steps.induct) (blast intro: received.nothing dest: step_received)+

lemma received_steps: "received H s s' g \<Longrightarrow> steps H s s'"
proof (induction rule: received.induct)
  case (nothing s)
  show ?case by (rule steps.here)
next
  case (call s s' g sender now c s'')
  then show ?case
    by (blast intro: steps.later step.transaction)
next
  case gift
  then show ?case
    by (auto intro!: steps.later [OF _ step.outside])
qed

lemma reachable_accounted:
  assumes "reachable H s"
  shows "locked s + self_paid s \<le> held s" and "clients_outside s"
proof -
  from assms obtain a t where "steps H (deployed a t) s"
    by (auto simp: reachable_def)
  then obtain g where "received H (deployed a t) s g"
    by (blast dest: steps_received)
  from received_deployed [OF this]
  show "locked s + self_paid s \<le> held s" and "clients_outside s"
    by simp_all
qed

lemma reachable_held:
  assumes "reachable H s" and "\<not> terminal (status (jobs s j))"
  shows "unat (amount (jobs s j)) \<le> held s"
proof -
  from assms(2) have "in_custody (jobs s j) = unat (amount (jobs s j))"
    by (cases "status (jobs s j)") (simp_all add: in_custody_def terminal_def)
  with in_custody_le_locked [of s j] reachable_accounted(1) [OF assms(1)] show ?thesis
    by simp
qed

lemma reachable_deployed: "reachable H (deployed a t)"
  unfolding reachable_def by (blast intro: steps.here)

lemma reachable_step: "reachable H s \<Longrightarrow> step H s s' \<Longrightarrow> reachable H s'"
  unfolding reachable_def by (blast intro: steps.later)

lemma deployed_step_reachable:
  assumes "exec H sender now c (deployed a t) = Inr s" and "sender \<noteq> address0"
    and "fresh_id H sender now c (deployed a t)" and "sender \<noteq> a"
  shows "reachable H s"
proof -
  from assms(4) have "sender \<noteq> this_address (deployed a t)"
    by (simp add: deployed_def)
  from reachable_deployed step.transaction [OF assms(2,3,1) this] show ?thesis
    by (rule reachable_step)
qed





section \<open>What a step does to one job\<close>

lemma exec_job:
  assumes "exec H sender now c s = Inr s'" and "sender \<noteq> address0"
    and "fresh_id H sender now c s"
  shows "jobs s' j = jobs s j
    \<or> (\<exists>wkr amt duration jh. c = CreateJob wkr amt duration jh
          \<and> j = H sender wkr amt now (jobCount s) \<and> jobs s j = empty_job
          \<and> jobs s' j = \<lparr>client = sender, worker = wkr, amount = amt,
                deadline = now + duration, jobHash = jh, status = Created, createdAt = now\<rparr>
          \<and> MIN_AMOUNT \<le> amt
          \<and> JobCreated j sender amt jh \<in> set (events s'))
    \<or> (c = AcceptJob j \<and> jobs s j \<noteq> empty_job
          \<and> status (jobs s j) = Created \<and> worker (jobs s j) = address0
          \<and> jobs s' j = (jobs s j)\<lparr>worker := sender, status := Funded\<rparr>)
    \<or> (c = CompleteJob j \<and> jobs s j \<noteq> empty_job \<and> sender = client (jobs s j)
          \<and> (status (jobs s j) = Created \<or> status (jobs s j) = Funded)
          \<and> worker (jobs s j) \<noteq> address0
          \<and> jobs s' j = (jobs s j)\<lparr>status := Completed\<rparr>)
    \<or> (c = CancelJob j \<and> jobs s j \<noteq> empty_job \<and> sender = client (jobs s j)
          \<and> status (jobs s j) = Created
          \<and> (worker (jobs s j) = address0 \<or> deadline (jobs s j) < now)
          \<and> jobs s' j = (jobs s j)\<lparr>status := Cancelled\<rparr>)
    \<or> (c = DisputeJob j \<and> jobs s j \<noteq> empty_job \<and> status (jobs s j) = Funded
          \<and> jobs s' j = (jobs s j)\<lparr>status := Disputed\<rparr>)
    \<or> (c = ResolveDispute j \<and> jobs s j \<noteq> empty_job \<and> status (jobs s j) = Disputed
          \<and> jobs s' j = (jobs s j)\<lparr>status := Resolved\<rparr>)"
proof (cases c)
  case (CreateJob wkr amt duration jh)
  with assms(1) obtain jobId where
    r: "createJob H sender now wkr amt duration jh s = Inr (jobId, s')"
    by (auto split: sum.splits)
  with assms(3) CreateJob show ?thesis
    by (auto simp: createJob_Inr)
next
  case (AcceptJob jobId)
  with assms show ?thesis
    by (auto simp: acceptJob_Inr empty_job_def)
next
  case (CompleteJob jobId)
  with assms show ?thesis
    by (auto simp: completeJob_Inr empty_job_def address0_def)
next
  case (CancelJob jobId)
  with assms show ?thesis
    by (auto simp: cancelJob_Inr empty_job_def address0_def)
next
  case (DisputeJob jobId)
  with assms show ?thesis
    by (auto simp: disputeJob_Inr empty_job_def)
next
  case (ResolveDispute jobId)
  with assms show ?thesis
    by (auto simp: resolveDispute_Inr empty_job_def)
qed

lemma exec_events:
  "exec H sender now c s = Inr s' \<Longrightarrow> set (events s) \<subseteq> set (events s')"
  by (cases c)
    (auto simp: createJob_Inr acceptJob_Inr completeJob_Inr cancelJob_Inr disputeJob_Inr
      resolveDispute_Inr split: sum.splits)

lemma empty_job_sel [simp]:
  "client empty_job = 0" "worker empty_job = 0" "amount empty_job = 0" "deadline empty_job = 0"
  "jobHash empty_job = []" "status empty_job = Created" "createdAt empty_job = 0"
  by (simp_all add: empty_job_def)

lemma step_job:
  assumes "step H s s'"
  shows "jobs s' j = jobs s j
    \<or> (jobs s j = empty_job \<and> status (jobs s' j) = Created
        \<and> (\<exists>c a h. JobCreated j c a h \<in> set (events s')))
    \<or> (jobs s j \<noteq> empty_job \<and> same_terms (jobs s j) (jobs s' j)
        \<and> (status (jobs s j) = Created \<and> worker (jobs s j) = address0
              \<and> status (jobs s' j) = Funded
            \<or> worker (jobs s' j) = worker (jobs s j)
              \<and> transition (status (jobs s j)) (status (jobs s' j))
              \<and> status (jobs s' j) \<noteq> Funded))"
  using assms
proof (cases rule: step.cases)
  case (transaction sender now c)
  from exec_job [OF transaction(3,1,2), of j] show ?thesis
    by (elim disjE exE conjE) (simp_all add: transition_def same_terms_def, blast+)
next
  case (outside b a r)
  then show ?thesis by simp
qed

lemma step_events: "step H s s' \<Longrightarrow> set (events s) \<subseteq> set (events s')"
  by (cases rule: step.cases) (auto dest: exec_events)

lemma transition_rank: "transition a b \<Longrightarrow> rank a < rank b"
  by (cases a; cases b) (simp_all add: transition_def)

lemma transition_terminal: "transition a b \<Longrightarrow> \<not> terminal a"
  by (auto simp: transition_def terminal_def)

lemma step_status:
  "step H s s' \<Longrightarrow>
     status (jobs s' j) = status (jobs s j) \<or> transition (status (jobs s j)) (status (jobs s' j))"
  using step_job [of H s s' j] by (auto simp: transition_def)

lemma step_fixed:
  assumes "step H s s'" and "jobs s j \<noteq> empty_job"
  shows "jobs s' j \<noteq> empty_job \<and> client (jobs s' j) = client (jobs s j)
    \<and> amount (jobs s' j) = amount (jobs s j) \<and> deadline (jobs s' j) = deadline (jobs s j)
    \<and> jobHash (jobs s' j) = jobHash (jobs s j) \<and> createdAt (jobs s' j) = createdAt (jobs s j)"
  using step_job [OF assms(1), of j] assms(2)
  by (auto simp: same_terms_def transition_def)

lemma steps_fixed:
  "steps H s s' \<Longrightarrow> jobs s j \<noteq> empty_job \<Longrightarrow>
     jobs s' j \<noteq> empty_job \<and> client (jobs s' j) = client (jobs s j)
     \<and> amount (jobs s' j) = amount (jobs s j) \<and> deadline (jobs s' j) = deadline (jobs s j)
     \<and> jobHash (jobs s' j) = jobHash (jobs s j) \<and> createdAt (jobs s' j) = createdAt (jobs s j)"
proof (induction rule: steps.induct)
  case (here s)
  then show ?case by simp
next
  case (later s s' s'')
  with step_fixed [of H s' s'' j] show ?case by simp
qed

lemma step_worker:
  assumes "step H s s'" and "worker (jobs s j) \<noteq> address0"
  shows "worker (jobs s' j) = worker (jobs s j)"
  using step_job [OF assms(1), of j] assms(2)
  by (auto simp: address0_def)

lemma steps_worker:
  "steps H s s' \<Longrightarrow> worker (jobs s j) \<noteq> address0 \<Longrightarrow> worker (jobs s' j) = worker (jobs s j)"
proof (induction rule: steps.induct)
  case (here s)
  then show ?case by simp
next
  case (later s s' s'')
  with step_worker [of H s' s'' j] show ?case by simp
qed

lemma steps_rank:
  "steps H s s' \<Longrightarrow>
     status (jobs s' j) = status (jobs s j) \<or> rank (status (jobs s j)) < rank (status (jobs s' j))"
proof (induction rule: steps.induct)
  case (here s)
  then show ?case by simp
next
  case (later s s' s'')
  from step_status [OF later.hyps(2), of j]
  have "status (jobs s'' j) = status (jobs s' j)
      \<or> rank (status (jobs s' j)) < rank (status (jobs s'' j))"
    by (auto dest: transition_rank)
  with later.IH show ?case by auto
qed

lemma steps_terminal:
  "steps H s s' \<Longrightarrow> terminal (status (jobs s j)) \<Longrightarrow> status (jobs s' j) = status (jobs s j)"
proof (induction rule: steps.induct)
  case (here s)
  then show ?case by simp
next
  case (later s s' s'')
  with step_status [OF later.hyps(2), of j] show ?case
    by (auto dest: transition_terminal)
qed

lemma step_steps: "step H s s' \<Longrightarrow> steps H s s'"
  by (blast intro: steps.intros)

lemma step_preassigned:
  assumes "step H s s'" and "worker (jobs s j) \<noteq> address0"
    and "status (jobs s j) = Created \<or> status (jobs s j) = Completed \<or> status (jobs s j) = Cancelled"
  shows "status (jobs s' j) = Created \<or> status (jobs s' j) = Completed
    \<or> status (jobs s' j) = Cancelled"
  using step_job [OF assms(1), of j] assms(2,3)
  by (auto simp: address0_def transition_def)

lemma steps_preassigned:
  "steps H s s' \<Longrightarrow> worker (jobs s j) \<noteq> address0 \<Longrightarrow>
     status (jobs s j) = Created \<or> status (jobs s j) = Completed \<or> status (jobs s j) = Cancelled \<Longrightarrow>
     worker (jobs s' j) = worker (jobs s j)
     \<and> (status (jobs s' j) = Created \<or> status (jobs s' j) = Completed
        \<or> status (jobs s' j) = Cancelled)"
proof (induction rule: steps.induct)
  case (here s)
  then show ?case by simp
next
  case (later s s' s'')
  then have w: "worker (jobs s' j) = worker (jobs s j)"
    and st: "status (jobs s' j) = Created \<or> status (jobs s' j) = Completed
        \<or> status (jobs s' j) = Cancelled"
    by simp_all
  from w later.prems(1) have n: "worker (jobs s' j) \<noteq> address0"
    by simp
  from step_worker [OF later.hyps(2) n] step_preassigned [OF later.hyps(2) n st] w
  show ?case by simp
qed

lemma step_was_created:
  assumes "step H s s'" and "jobs s j \<noteq> empty_job \<longrightarrow> was_created s j"
  shows "jobs s' j \<noteq> empty_job \<longrightarrow> was_created s' j"
proof -
  have keep: "was_created s j \<Longrightarrow> was_created s' j"
    using step_events [OF assms(1)] by (auto simp: was_created_def)
  from step_job [OF assms(1), of j] show ?thesis
  proof (elim disjE conjE exE)
    assume "jobs s' j = jobs s j"
    with assms(2) keep show ?thesis by auto
  next
    fix c a h
    assume "JobCreated j c a h \<in> set (events s')"
    then have "was_created s' j"
      by (force simp: was_created_def)
    then show ?thesis by simp
  next
    assume "jobs s j \<noteq> empty_job"
    with assms(2) keep show ?thesis by simp
  next
    assume "jobs s j \<noteq> empty_job"
    with assms(2) keep show ?thesis by simp
  qed
qed

lemma steps_was_created:
  "steps H s s' \<Longrightarrow> (jobs s j \<noteq> empty_job \<longrightarrow> was_created s j)
     \<Longrightarrow> jobs s' j \<noteq> empty_job \<longrightarrow> was_created s' j"
  by (induction rule: steps.induct) (blast intro: step_was_created [rule_format])+

lemma reachable_never_created:
  assumes "reachable H s" and "\<not> was_created s j"
  shows "jobs s j = empty_job"
proof -
  from assms(1) obtain a t where "steps H (deployed a t) s"
    by (auto simp: reachable_def)
  moreover have "jobs (deployed a t) j \<noteq> empty_job \<longrightarrow> was_created (deployed a t) j"
    by (simp add: deployed_def)
  ultimately have "jobs s j \<noteq> empty_job \<longrightarrow> was_created s j"
    by (rule steps_was_created)
  with assms(2) show ?thesis by blast
qed

section \<open>The concrete runs, evaluated\<close>

lemmas eval_defs = createJob_def acceptJob_def completeJob_def cancelJob_def disputeJob_def
  resolveDispute_def MIN_AMOUNT_def MAX_DURATION_def days_def checked_add_def pull_def push_def
  move_def deployed_def demo_deployed_def demo_asset_def counter_id_def address0_def Let_def

lemma demo_open_eq:
  "demo_open = \<lparr>this_address = 9,
     usdc = \<lparr>balanceOf = (\<lambda>_. 0)(1 := 4000000, 9 := 1000000), allowance = (\<lambda>_. 0)(1 := 4000000),
       rejects = (\<lambda>_. False)(3 := True)\<rparr>,
     jobs = (\<lambda>_. empty_job)(0 := \<lparr>client = 1, worker = 0, amount = 1000000,
       deadline = 2592100, jobHash = ''h'', status = Created, createdAt = 100\<rparr>),
     agentJobs = (\<lambda>_. [])(1 := [0]), jobCount = 1,
     events = [JobCreated 0 1 1000000 ''h'', JobFunded 0 1]\<rparr>"
  by (simp add: demo_open_def eval_defs)

lemma demo_funded_eq:
  "demo_funded = \<lparr>this_address = 9,
     usdc = \<lparr>balanceOf = (\<lambda>_. 0)(1 := 4000000, 9 := 1000000), allowance = (\<lambda>_. 0)(1 := 4000000),
       rejects = (\<lambda>_. False)(3 := True)\<rparr>,
     jobs = (\<lambda>_. empty_job)(0 := \<lparr>client = 1, worker = 2, amount = 1000000,
       deadline = 2592100, jobHash = ''h'', status = Funded, createdAt = 100\<rparr>),
     agentJobs = (\<lambda>_. [])(1 := [0], 2 := [0]), jobCount = 1,
     events = [JobCreated 0 1 1000000 ''h'', JobFunded 0 1, JobAccepted 0 2]\<rparr>"
  by (simp add: demo_funded_def demo_open_eq eval_defs)

lemma demo_disputed_eq:
  "demo_disputed = \<lparr>this_address = 9,
     usdc = \<lparr>balanceOf = (\<lambda>_. 0)(1 := 4000000, 9 := 1000000), allowance = (\<lambda>_. 0)(1 := 4000000),
       rejects = (\<lambda>_. False)(3 := True)\<rparr>,
     jobs = (\<lambda>_. empty_job)(0 := \<lparr>client = 1, worker = 2, amount = 1000000,
       deadline = 2592100, jobHash = ''h'', status = Disputed, createdAt = 100\<rparr>),
     agentJobs = (\<lambda>_. [])(1 := [0], 2 := [0]), jobCount = 1,
     events = [JobCreated 0 1 1000000 ''h'', JobFunded 0 1, JobAccepted 0 2, JobDisputed 0 2]\<rparr>"
  by (simp add: demo_disputed_def demo_funded_eq eval_defs)

lemma demo_assigned_eq:
  "demo_assigned = \<lparr>this_address = 9,
     usdc = \<lparr>balanceOf = (\<lambda>_. 0)(1 := 4000000, 9 := 1000000), allowance = (\<lambda>_. 0)(1 := 4000000),
       rejects = (\<lambda>_. False)(3 := True)\<rparr>,
     jobs = (\<lambda>_. empty_job)(0 := \<lparr>client = 1, worker = 2, amount = 1000000,
       deadline = 2592100, jobHash = ''h'', status = Created, createdAt = 100\<rparr>),
     agentJobs = (\<lambda>_. [])(1 := [0]), jobCount = 1,
     events = [JobCreated 0 1 1000000 ''h'', JobFunded 0 1]\<rparr>"
  by (simp add: demo_assigned_def eval_defs)

lemma demo_rejecting_eq:
  "demo_rejecting = \<lparr>this_address = 9,
     usdc = \<lparr>balanceOf = (\<lambda>_. 0)(1 := 4000000, 9 := 1000000), allowance = (\<lambda>_. 0)(1 := 4000000),
       rejects = (\<lambda>_. False)(3 := True)\<rparr>,
     jobs = (\<lambda>_. empty_job)(0 := \<lparr>client = 1, worker = 3, amount = 1000000,
       deadline = 2592100, jobHash = ''h'', status = Created, createdAt = 100\<rparr>),
     agentJobs = (\<lambda>_. [])(1 := [0]), jobCount = 1,
     events = [JobCreated 0 1 1000000 ''h'', JobFunded 0 1]\<rparr>"
  by (simp add: demo_rejecting_def eval_defs)

lemma demo_self_eq:
  "demo_self = \<lparr>this_address = 9,
     usdc = \<lparr>balanceOf = (\<lambda>_. 0)(1 := 4000000, 9 := 1000000), allowance = (\<lambda>_. 0)(1 := 4000000),
       rejects = (\<lambda>_. False)(3 := True)\<rparr>,
     jobs = (\<lambda>_. empty_job)(0 := \<lparr>client = 1, worker = 9, amount = 1000000,
       deadline = 2592100, jobHash = ''h'', status = Created, createdAt = 100\<rparr>),
     agentJobs = (\<lambda>_. [])(1 := [0]), jobCount = 1,
     events = [JobCreated 0 1 1000000 ''h'', JobFunded 0 1]\<rparr>"
  by (simp add: demo_self_def eval_defs)

lemma demo_refused_eq:
  "demo_refused = \<lparr>this_address = 9,
     usdc = \<lparr>balanceOf = (\<lambda>_. 0)(1 := 4000000, 9 := 1000000), allowance = (\<lambda>_. 0)(1 := 4000000),
       rejects = (\<lambda>_. False)(3 := True, 1 := True)\<rparr>,
     jobs = (\<lambda>_. empty_job)(0 := \<lparr>client = 1, worker = 0, amount = 1000000,
       deadline = 2592100, jobHash = ''h'', status = Created, createdAt = 100\<rparr>),
     agentJobs = (\<lambda>_. [])(1 := [0]), jobCount = 1,
     events = [JobCreated 0 1 1000000 ''h'', JobFunded 0 1]\<rparr>"
  by (simp add: demo_refused_def demo_open_eq)

lemma demo_completed_eq:
  "demo_completed = \<lparr>this_address = 9,
     usdc = \<lparr>balanceOf = (\<lambda>_. 0)(1 := 4000000, 9 := 0, 2 := 1000000), allowance = (\<lambda>_. 0)(1 := 4000000),
       rejects = (\<lambda>_. False)(3 := True)\<rparr>,
     jobs = (\<lambda>_. empty_job)(0 := \<lparr>client = 1, worker = 2, amount = 1000000,
       deadline = 2592100, jobHash = ''h'', status = Completed, createdAt = 100\<rparr>),
     agentJobs = (\<lambda>_. [])(1 := [0]), jobCount = 1,
     events = [JobCreated 0 1 1000000 ''h'', JobFunded 0 1, JobCompleted 0 2 1000000]\<rparr>"
  by (simp add: demo_completed_def demo_assigned_eq eval_defs)


lemma demo_open_exec:
  "exec counter_id 1 100 (CreateJob 0 1000000 2592000 ''h'') demo_deployed = Inr demo_open"
  by (simp add: demo_open_eq eval_defs)


lemma demo_funded_exec: "exec counter_id 2 200 (AcceptJob 0) demo_open = Inr demo_funded"
  by (simp add: demo_funded_eq demo_open_eq eval_defs)

lemma demo_disputed_exec: "exec counter_id 2 300 (DisputeJob 0) demo_funded = Inr demo_disputed"
  by (simp add: demo_disputed_eq demo_funded_eq eval_defs)

lemma demo_completed_exec:
  "exec counter_id 1 200 (CompleteJob 0) demo_assigned = Inr demo_completed"
  by (simp add: demo_completed_eq demo_assigned_eq eval_defs)


lemma reachable_demo_open: "reachable counter_id demo_open"
  by (rule deployed_step_reachable [of counter_id 1 100 "CreateJob 0 1000000 2592000 ''h''" 9 demo_asset])
    (simp_all add: demo_open_def eval_defs empty_job_def)

lemma reachable_demo_rejecting: "reachable counter_id demo_rejecting"
  by (rule deployed_step_reachable [of counter_id 1 100 "CreateJob 3 1000000 2592000 ''h''" 9 demo_asset])
    (simp_all add: demo_rejecting_def eval_defs empty_job_def)

lemma reachable_demo_assigned: "reachable counter_id demo_assigned"
  by (rule deployed_step_reachable [of counter_id 1 100 "CreateJob 2 1000000 2592000 ''h''" 9 demo_asset])
    (simp_all add: demo_assigned_def eval_defs empty_job_def)


lemma reachable_demo_refused: "reachable counter_id demo_refused"
  unfolding demo_refused_def
  by (rule reachable_step [OF reachable_demo_open]) (rule step.outside, simp)

lemma demo_funded_step: "step counter_id demo_open demo_funded"
  by (rule step.transaction [OF _ _ demo_funded_exec]) (simp_all add: address0_def demo_open_eq)

lemma demo_disputed_step: "step counter_id demo_funded demo_disputed"
  by (rule step.transaction [OF _ _ demo_disputed_exec]) (simp_all add: address0_def demo_funded_eq)

lemma demo_disputed_steps: "steps counter_id demo_open demo_disputed"
  using demo_funded_step demo_disputed_step by (blast intro: steps.intros)

lemma reachable_demo_disputed: "reachable counter_id demo_disputed"
  using reachable_demo_open demo_funded_step demo_disputed_step by (blast intro: reachable_step)

lemma demo_completed_step: "step counter_id demo_assigned demo_completed"
  by (rule step.transaction [OF _ _ demo_completed_exec]) (simp_all add: address0_def demo_assigned_eq)






section \<open>The claims\<close>




text \<open>
  C2 (\<^verbatim>\<open>resolveDispute\<close>). The call succeeds only if the job is Disputed and the time is
  strictly later than the deadline plus 7 days; then the status becomes Resolved, nothing
  else in the job changes, and the whole amount is transferred from the engine to the
  client and to nobody else. The client of a job that exists in a reachable state is never
  the engine itself, so in every reachable state the balance the engine holds drops by the
  amount and that of the client rises by it. A job that is not Disputed fails with the
  StateError \<^verbatim>\<open>Not disputed\<close>. No call succeeds before the window has passed; on a Disputed job it
  fails with the TimingError \<^verbatim>\<open>Resolution period not ended\<close>, as long as deadline plus
  7 days is a 256-bit number (otherwise the checked addition panics before the
  comparison).
\<close>

theorem resolveDispute_after_window:
  "(resolveDispute now jobId s = Inr s' \<longrightarrow>
      status (jobs s jobId) = Disputed
      \<and> unat (deadline (jobs s jobId)) + unat (days 7) < unat now
      \<and> jobs s' = (jobs s)(jobId := (jobs s jobId)\<lparr>status := Resolved\<rparr>)
      \<and> push (usdc s) (this_address s) (client (jobs s jobId)) (unat (amount (jobs s jobId)))
          = Inr (usdc s')
      \<and> events s' = events s @
            [DisputeResolved jobId (client (jobs s jobId)) (amount (jobs s jobId))]
      \<and> (client (jobs s jobId) \<noteq> this_address s \<longrightarrow>
            held s' + unat (amount (jobs s jobId)) = held s
            \<and> balanceOf (usdc s') = (balanceOf (usdc s))
                (this_address s := held s - unat (amount (jobs s jobId)),
                 client (jobs s jobId) :=
                   balanceOf (usdc s) (client (jobs s jobId)) + unat (amount (jobs s jobId)))))
   \<and> (reachable H s \<and> jobs s jobId \<noteq> empty_job \<longrightarrow>
        client (jobs s jobId) \<noteq> this_address s)
   \<and> (reachable H s \<and> resolveDispute now jobId s = Inr s' \<longrightarrow>
        held s' + unat (amount (jobs s jobId)) = held s
        \<and> balanceOf (usdc s') = (balanceOf (usdc s))
            (this_address s := held s - unat (amount (jobs s jobId)),
             client (jobs s jobId) :=
               balanceOf (usdc s) (client (jobs s jobId)) + unat (amount (jobs s jobId))))
   \<and> (status (jobs s jobId) \<noteq> Disputed \<longrightarrow>
        resolveDispute now jobId s = Inl (Revert ''Not disputed'')
        \<and> kind (Revert ''Not disputed'') = StateError)
   \<and> (unat now \<le> unat (deadline (jobs s jobId)) + unat (days 7) \<longrightarrow>
        isl (resolveDispute now jobId s))
   \<and> (status (jobs s jobId) = Disputed
        \<and> unat now \<le> unat (deadline (jobs s jobId)) + unat (days 7)
        \<and> unat (deadline (jobs s jobId)) + unat (days 7) < 2 ^ 256 \<longrightarrow>
        resolveDispute now jobId s = Inl (Revert ''Resolution period not ended'')
        \<and> kind (Revert ''Resolution period not ended'') = TimingError)"
proof (intro conjI impI)
  assume r: "resolveDispute now jobId s = Inr s'"
  then show "status (jobs s jobId) = Disputed"
    and "unat (deadline (jobs s jobId)) + unat (days 7) < unat now"
    and "jobs s' = (jobs s)(jobId := (jobs s jobId)\<lparr>status := Resolved\<rparr>)"
    and "push (usdc s) (this_address s) (client (jobs s jobId)) (unat (amount (jobs s jobId)))
          = Inr (usdc s')"
    and "events s' = events s @
            [DisputeResolved jobId (client (jobs s jobId)) (amount (jobs s jobId))]"
    by (simp_all add: resolveDispute_Inr seven_days push_Inr held_def)
next
  assume r: "resolveDispute now jobId s = Inr s'"
    and ne: "client (jobs s jobId) \<noteq> this_address s"
  from r have le: "unat (amount (jobs s jobId)) \<le> held s"
    and b: "balanceOf (usdc s') = move (balanceOf (usdc s)) (this_address s)
        (client (jobs s jobId)) (unat (amount (jobs s jobId)))"
    and a: "this_address s' = this_address s"
    by (simp_all add: resolveDispute_Inr)
  from b ne show "balanceOf (usdc s') = (balanceOf (usdc s))
                (this_address s := held s - unat (amount (jobs s jobId)),
                 client (jobs s jobId) :=
                   balanceOf (usdc s) (client (jobs s jobId)) + unat (amount (jobs s jobId)))"
    by (simp add: move_apart held_def)
  with a ne le show "held s' + unat (amount (jobs s jobId)) = held s"
    by (simp add: held_def)
next
  assume "reachable H s \<and> jobs s jobId \<noteq> empty_job"
  then show "client (jobs s jobId) \<noteq> this_address s"
    using reachable_accounted(2) [of H s] by (simp add: clients_outside_def)
next
  assume "reachable H s \<and> resolveDispute now jobId s = Inr s'"
  then have c: "clients_outside s" and r: "resolveDispute now jobId s = Inr s'"
    by (blast intro: reachable_accounted(2))+
  from r have "status (jobs s jobId) = Disputed"
    by (simp add: resolveDispute_Inr)
  then have "jobs s jobId \<noteq> empty_job"
    by auto
  with c have ne: "client (jobs s jobId) \<noteq> this_address s \<or> unat (amount (jobs s jobId)) = 0"
    by (simp add: clients_outside_def)
  from r have le: "unat (amount (jobs s jobId)) \<le> balanceOf (usdc s) (this_address s)"
    and b: "balanceOf (usdc s') = move (balanceOf (usdc s)) (this_address s)
        (client (jobs s jobId)) (unat (amount (jobs s jobId)))"
    and a: "this_address s' = this_address s"
    by (simp_all add: resolveDispute_Inr held_def)
  from move_paid [OF b le ne] a
  show "held s' + unat (amount (jobs s jobId)) = held s"
    and "balanceOf (usdc s') = (balanceOf (usdc s))
            (this_address s := held s - unat (amount (jobs s jobId)),
             client (jobs s jobId) :=
               balanceOf (usdc s) (client (jobs s jobId)) + unat (amount (jobs s jobId)))"
    by (simp_all add: held_def)
next
  assume "status (jobs s jobId) \<noteq> Disputed"
  then show "resolveDispute now jobId s = Inl (Revert ''Not disputed'')"
    by (simp add: resolveDispute_def)
next
  show "kind (Revert ''Not disputed'') = StateError"
    by (rule kind_simps)
next
  assume "unat now \<le> unat (deadline (jobs s jobId)) + unat (days 7)"
  then have "\<not> (\<exists>s'. resolveDispute now jobId s = Inr s')"
    by (simp add: resolveDispute_Inr seven_days)
  then show "isl (resolveDispute now jobId s)"
    by (cases "resolveDispute now jobId s") simp_all
next
  assume "status (jobs s jobId) = Disputed
        \<and> unat now \<le> unat (deadline (jobs s jobId)) + unat (days 7)
        \<and> unat (deadline (jobs s jobId)) + unat (days 7) < 2 ^ 256"
  then show "resolveDispute now jobId s = Inl (Revert ''Resolution period not ended'')"
    by (simp add: resolveDispute_def checked_add_def word_less_nat_alt unat_checked_sum)
next
  show "kind (Revert ''Resolution period not ended'') = TimingError"
    by (rule kind_simps)
qed

theorem resolveDispute_after_window_witness:
  "resolveDispute 3196900 0 demo_disputed = Inl (Revert ''Resolution period not ended'')
   \<and> resolveDispute 3196901 0 demo_funded = Inl (Revert ''Not disputed'')
   \<and> client (jobs demo_disputed 0) \<noteq> this_address demo_disputed
   \<and> status (jobs (projr (resolveDispute 3196901 0 demo_disputed)) 0) = Resolved
   \<and> balanceOf (usdc (projr (resolveDispute 3196901 0 demo_disputed))) 1 = 5000000
   \<and> balanceOf (usdc (projr (resolveDispute 3196901 0 demo_disputed))) 2 = 0
   \<and> held (projr (resolveDispute 3196901 0 demo_disputed)) = 0"
proof -
  let ?s' = "projr (resolveDispute 3196901 0 demo_disputed)"
  have ok: "resolveDispute 3196901 0 demo_disputed = Inr ?s'"
    by (simp add: demo_disputed_eq eval_defs)
  have a: "status (jobs demo_disputed 0) = Disputed"
    "unat (deadline (jobs demo_disputed 0)) + unat (days 7) = 3196900"
    "client (jobs demo_disputed 0) = 1" "unat (amount (jobs demo_disputed 0)) = 1000000"
    "held demo_disputed = 1000000" "balanceOf (usdc demo_disputed) 1 = 4000000"
    "balanceOf (usdc demo_disputed) 2 = 0" "this_address demo_disputed = 9"
    by (simp_all add: demo_disputed_eq days_def held_def)
  have b: "status (jobs demo_funded 0) \<noteq> Disputed"
    by (simp add: demo_funded_eq)
  have early: "resolveDispute 3196900 0 demo_disputed = Inl (Revert ''Resolution period not ended'')"
    using resolveDispute_after_window [of 3196900 0 demo_disputed] a(1,2) by simp
  have wrong: "resolveDispute 3196901 0 demo_funded = Inl (Revert ''Not disputed'')"
    using resolveDispute_after_window [of 3196901 0 demo_funded] b by simp
  note t = resolveDispute_after_window [of 3196901 0 demo_disputed ?s' counter_id]
  have "jobs demo_disputed 0 \<noteq> empty_job"
    by (simp add: demo_disputed_eq empty_job_def)
  with t reachable_demo_disputed
  have outside: "client (jobs demo_disputed 0) \<noteq> this_address demo_disputed"
    by blast
  note fin = t [THEN conjunct1, rule_format, OF ok]
  note run = t [THEN conjunct2, THEN conjunct2, THEN conjunct1, rule_format,
      OF conjI [OF reachable_demo_disputed ok]]
  from fin run have "status (jobs ?s' 0) = Resolved"
    and "held ?s' + unat (amount (jobs demo_disputed 0)) = held demo_disputed"
    and bal: "balanceOf (usdc ?s') = (balanceOf (usdc demo_disputed))
        (this_address demo_disputed := held demo_disputed - unat (amount (jobs demo_disputed 0)),
         client (jobs demo_disputed 0) := balanceOf (usdc demo_disputed)
           (client (jobs demo_disputed 0)) + unat (amount (jobs demo_disputed 0)))"
    by simp_all
  with a have "status (jobs ?s' 0) = Resolved" and "balanceOf (usdc ?s') 1 = 5000000"
    and "balanceOf (usdc ?s') 2 = 0" and "held ?s' = 0"
    by simp_all
  with early wrong outside show ?thesis by blast
qed

text \<open>
  C3 (\<^verbatim>\<open>completeJob\<close>), as first stated: the call succeeds exactly when the caller is the
  client, the status is Created or Funded and a worker is assigned. It does not: the
  transfer to the worker is the last step of the call, and when the worker's account
  rejects receipt the call fails although all three conditions hold.
\<close>

theorem completeJob_guards_counterexample:
  "reachable counter_id demo_rejecting
   \<and> 1 = client (jobs demo_rejecting 0)
   \<and> status (jobs demo_rejecting 0) = Created
   \<and> worker (jobs demo_rejecting 0) \<noteq> address0
   \<and> completeJob 1 0 demo_rejecting = Inl PushFailed"
  using reachable_demo_rejecting by (simp add: demo_rejecting_eq eval_defs)

text \<open>
  C3 (\<^verbatim>\<open>completeJob\<close>), amended. The call succeeds exactly when the caller is the client,
  the status is Created or Funded, a worker is assigned and the push of the amount to the
  worker goes through; in a reachable state the engine holds the amount of every job that
  is not terminal, so that the push goes through exactly if the worker's account does not
  reject receipt. Another caller fails with the AuthorizationError
  \<^verbatim>\<open>Only client can complete\<close>; the client fails with a StateError if no worker is assigned
  or the status is terminal, and with TransferFailure if only the push fails. On success
  the status is Completed, nothing else in the job changes, and the amount has been
  transferred from the engine to the worker: the balance the engine holds has dropped by
  the amount and that of the worker has risen by it, unless the worker is the engine's own
  address, when the transfer is from the engine to itself and no balance has changed.
\<close>

theorem completeJob_exactly_when:
  "((\<exists>s'. completeJob sender jobId s = Inr s') \<longleftrightarrow>
      sender = client (jobs s jobId)
      \<and> (status (jobs s jobId) = Created \<or> status (jobs s jobId) = Funded)
      \<and> worker (jobs s jobId) \<noteq> address0
      \<and> (\<exists>t'. push (usdc s) (this_address s) (worker (jobs s jobId))
            (unat (amount (jobs s jobId))) = Inr t'))
   \<and> (sender \<noteq> client (jobs s jobId) \<longrightarrow>
        completeJob sender jobId s = Inl (Revert ''Only client can complete'')
        \<and> kind (Revert ''Only client can complete'') = AuthorizationError)
   \<and> (sender = client (jobs s jobId)
        \<and> (worker (jobs s jobId) = address0 \<or> terminal (status (jobs s jobId))) \<longrightarrow>
        (\<exists>e. completeJob sender jobId s = Inl e \<and> kind e = StateError))
   \<and> (sender = client (jobs s jobId)
        \<and> (status (jobs s jobId) = Created \<or> status (jobs s jobId) = Funded)
        \<and> worker (jobs s jobId) \<noteq> address0
        \<and> (\<forall>t'. push (usdc s) (this_address s) (worker (jobs s jobId))
              (unat (amount (jobs s jobId))) \<noteq> Inr t') \<longrightarrow>
        completeJob sender jobId s = Inl PushFailed \<and> kind PushFailed = TransferFailure)
   \<and> (completeJob sender jobId s = Inr s' \<longrightarrow>
        jobs s' = (jobs s)(jobId := (jobs s jobId)\<lparr>status := Completed\<rparr>)
        \<and> push (usdc s) (this_address s) (worker (jobs s jobId))
            (unat (amount (jobs s jobId))) = Inr (usdc s')
        \<and> (worker (jobs s jobId) \<noteq> this_address s \<longrightarrow>
              held s' + unat (amount (jobs s jobId)) = held s
              \<and> balanceOf (usdc s') = (balanceOf (usdc s))
                  (this_address s := held s - unat (amount (jobs s jobId)),
                   worker (jobs s jobId) :=
                     balanceOf (usdc s) (worker (jobs s jobId)) + unat (amount (jobs s jobId))))
        \<and> (worker (jobs s jobId) = this_address s \<longrightarrow>
              held s' = held s \<and> balanceOf (usdc s') = balanceOf (usdc s)))
   \<and> (reachable H s \<and> \<not> terminal (status (jobs s jobId)) \<longrightarrow>
        ((\<exists>t'. push (usdc s) (this_address s) (worker (jobs s jobId))
            (unat (amount (jobs s jobId))) = Inr t')
          \<longleftrightarrow> \<not> rejects (usdc s) (worker (jobs s jobId))))"
proof (intro conjI impI)
  show "(\<exists>s'. completeJob sender jobId s = Inr s') \<longleftrightarrow>
      sender = client (jobs s jobId)
      \<and> (status (jobs s jobId) = Created \<or> status (jobs s jobId) = Funded)
      \<and> worker (jobs s jobId) \<noteq> address0
      \<and> (\<exists>t'. push (usdc s) (this_address s) (worker (jobs s jobId))
            (unat (amount (jobs s jobId))) = Inr t')"
    by (auto simp: completeJob_Inr push_Inr held_def)
next
  assume "sender \<noteq> client (jobs s jobId)"
  then show "completeJob sender jobId s = Inl (Revert ''Only client can complete'')"
    by (simp add: completeJob_def Let_def)
next
  show "kind (Revert ''Only client can complete'') = AuthorizationError"
    by (rule kind_simps)
next
  assume "sender = client (jobs s jobId)
        \<and> (worker (jobs s jobId) = address0 \<or> terminal (status (jobs s jobId)))"
  then have "completeJob sender jobId s = Inl (Revert ''Invalid status'')
      \<or> completeJob sender jobId s = Inl (Revert ''No worker assigned'')"
    by (auto simp: completeJob_def Let_def terminal_def)
  then show "\<exists>e. completeJob sender jobId s = Inl e \<and> kind e = StateError"
    using kind_simps(9,10) by metis
next
  assume "sender = client (jobs s jobId)
        \<and> (status (jobs s jobId) = Created \<or> status (jobs s jobId) = Funded)
        \<and> worker (jobs s jobId) \<noteq> address0
        \<and> (\<forall>t'. push (usdc s) (this_address s) (worker (jobs s jobId))
              (unat (amount (jobs s jobId))) \<noteq> Inr t')"
  then show "completeJob sender jobId s = Inl PushFailed"
    by (auto simp: completeJob_def Let_def push_def split: sum.splits if_splits)
next
  show "kind PushFailed = TransferFailure" by simp
next
  assume r: "completeJob sender jobId s = Inr s'"
  then show "jobs s' = (jobs s)(jobId := (jobs s jobId)\<lparr>status := Completed\<rparr>)"
    and "push (usdc s) (this_address s) (worker (jobs s jobId))
            (unat (amount (jobs s jobId))) = Inr (usdc s')"
    by (simp_all add: completeJob_Inr push_Inr held_def)
next
  assume r: "completeJob sender jobId s = Inr s'"
    and ne: "worker (jobs s jobId) \<noteq> this_address s"
  from r have le: "unat (amount (jobs s jobId)) \<le> held s"
    and b: "balanceOf (usdc s') = move (balanceOf (usdc s)) (this_address s)
        (worker (jobs s jobId)) (unat (amount (jobs s jobId)))"
    and a: "this_address s' = this_address s"
    by (simp_all add: completeJob_Inr)
  from b ne show "balanceOf (usdc s') = (balanceOf (usdc s))
                  (this_address s := held s - unat (amount (jobs s jobId)),
                   worker (jobs s jobId) :=
                     balanceOf (usdc s) (worker (jobs s jobId)) + unat (amount (jobs s jobId)))"
    by (simp add: move_apart held_def)
  with a ne le show "held s' + unat (amount (jobs s jobId)) = held s"
    by (simp add: held_def)
next
  assume r: "completeJob sender jobId s = Inr s'"
    and eq: "worker (jobs s jobId) = this_address s"
  from r have le: "unat (amount (jobs s jobId)) \<le> held s"
    and b: "balanceOf (usdc s') = move (balanceOf (usdc s)) (this_address s)
        (worker (jobs s jobId)) (unat (amount (jobs s jobId)))"
    and a: "this_address s' = this_address s"
    by (simp_all add: completeJob_Inr)
  from b eq le show "balanceOf (usdc s') = balanceOf (usdc s)"
    by (simp add: move_self held_def)
  with a show "held s' = held s"
    by (simp add: held_def)
next
  assume "reachable H s \<and> \<not> terminal (status (jobs s jobId))"
  then have "unat (amount (jobs s jobId)) \<le> held s"
    by (blast intro: reachable_held)
  then show "(\<exists>t'. push (usdc s) (this_address s) (worker (jobs s jobId))
            (unat (amount (jobs s jobId))) = Inr t')
          \<longleftrightarrow> \<not> rejects (usdc s) (worker (jobs s jobId))"
    by (simp add: push_def held_def)
qed

theorem completeJob_exactly_when_witness:
  "status (jobs (projr (completeJob 1 0 demo_assigned)) 0) = Completed
   \<and> balanceOf (usdc (projr (completeJob 1 0 demo_assigned))) 2 = 1000000
   \<and> held (projr (completeJob 1 0 demo_assigned)) = 0
   \<and> status (jobs (projr (completeJob 1 0 demo_self)) 0) = Completed
   \<and> held (projr (completeJob 1 0 demo_self)) = 1000000
   \<and> completeJob 2 0 demo_assigned = Inl (Revert ''Only client can complete'')
   \<and> kind (projl (completeJob 1 0 demo_open)) = StateError
   \<and> completeJob 1 0 demo_rejecting = Inl PushFailed
   \<and> \<not> rejects (usdc demo_assigned) (worker (jobs demo_assigned 0))"
proof -
  let ?s' = "projr (completeJob 1 0 demo_assigned)"
  let ?k' = "projr (completeJob 1 0 demo_self)"
  have ok: "completeJob 1 0 demo_assigned = Inr ?s'"
    by (simp add: demo_assigned_eq eval_defs)
  have a: "worker (jobs demo_assigned 0) = 2" "unat (amount (jobs demo_assigned 0)) = 1000000"
    "held demo_assigned = 1000000" "balanceOf (usdc demo_assigned) 2 = 0"
    "client (jobs demo_assigned 0) = 1" "status (jobs demo_assigned 0) = Created"
    "this_address demo_assigned = 9"
    by (simp_all add: demo_assigned_eq held_def)
  note t = completeJob_exactly_when [of 1 0 demo_assigned ?s' counter_id]
  note fin = t [THEN conjunct2, THEN conjunct2, THEN conjunct2, THEN conjunct2, THEN conjunct1,
      rule_format, OF ok]
  from fin a have "status (jobs ?s' 0) = Completed"
    and "held ?s' + unat (amount (jobs demo_assigned 0)) = held demo_assigned"
    and "balanceOf (usdc ?s') = (balanceOf (usdc demo_assigned))
        (this_address demo_assigned := held demo_assigned - unat (amount (jobs demo_assigned 0)),
         worker (jobs demo_assigned 0) := balanceOf (usdc demo_assigned)
           (worker (jobs demo_assigned 0)) + unat (amount (jobs demo_assigned 0)))"
    by simp_all
  with a have paid: "status (jobs ?s' 0) = Completed"
    "balanceOf (usdc ?s') 2 = 1000000" "held ?s' = 0"
    by simp_all
  have ok_self: "completeJob 1 0 demo_self = Inr ?k'"
    by (simp add: demo_self_eq eval_defs)
  have k: "worker (jobs demo_self 0) = this_address demo_self" "held demo_self = 1000000"
    by (simp_all add: demo_self_eq held_def)
  note fin_self = completeJob_exactly_when [of 1 0 demo_self ?k' counter_id,
      THEN conjunct2, THEN conjunct2, THEN conjunct2, THEN conjunct2, THEN conjunct1,
      rule_format, OF ok_self]
  from fin_self k have kept: "status (jobs ?k' 0) = Completed" "held ?k' = 1000000"
    by simp_all
  have "\<exists>t'. push (usdc demo_assigned) (this_address demo_assigned)
      (worker (jobs demo_assigned 0)) (unat (amount (jobs demo_assigned 0))) = Inr t'"
    using t [THEN conjunct1] ok by blast
  moreover have "reachable counter_id demo_assigned \<and> \<not> terminal (status (jobs demo_assigned 0))"
    by (simp add: reachable_demo_assigned a terminal_def)
  ultimately have accepts: "\<not> rejects (usdc demo_assigned) (worker (jobs demo_assigned 0))"
    using t [THEN conjunct2, THEN conjunct2, THEN conjunct2, THEN conjunct2, THEN conjunct2]
    by blast
  have other: "completeJob 2 0 demo_assigned = Inl (Revert ''Only client can complete'')"
    using completeJob_exactly_when [of 2 0 demo_assigned] a by simp
  have "1 = client (jobs demo_open 0)
      \<and> (worker (jobs demo_open 0) = address0 \<or> terminal (status (jobs demo_open 0)))"
    by (simp add: demo_open_eq address0_def)
  with completeJob_exactly_when [of 1 0 demo_open]
  obtain e where "completeJob 1 0 demo_open = Inl e" and "kind e = StateError"
    by blast
  then have unassigned: "kind (projl (completeJob 1 0 demo_open)) = StateError"
    by simp
  have "1 = client (jobs demo_rejecting 0)
      \<and> (status (jobs demo_rejecting 0) = Created \<or> status (jobs demo_rejecting 0) = Funded)
      \<and> worker (jobs demo_rejecting 0) \<noteq> address0
      \<and> (\<forall>t'. push (usdc demo_rejecting) (this_address demo_rejecting)
            (worker (jobs demo_rejecting 0)) (unat (amount (jobs demo_rejecting 0))) \<noteq> Inr t')"
    by (simp add: demo_rejecting_eq address0_def push_def)
  with completeJob_exactly_when [of 1 0 demo_rejecting]
  have rejected: "completeJob 1 0 demo_rejecting = Inl PushFailed"
    by blast
  from paid kept accepts other unassigned rejected show ?thesis by blast
qed

text \<open>
  C7 (the bounds that \<^verbatim>\<open>createJob\<close> checks). A call with the amount equal to
  \<^verbatim>\<open>MIN_AMOUNT\<close>, and one with the duration equal to \<^verbatim>\<open>MAX_DURATION\<close>, succeeds when the rest of
  the call is in order: the other arguments pass their checks, the counter and the
  deadline do not overflow, and the caller owns and has authorised the amount. An amount of
  \<^verbatim>\<open>MIN_AMOUNT - 1\<close> fails with the ValidationError \<^verbatim>\<open>Amount too small\<close>; a duration of
  \<^verbatim>\<open>MAX_DURATION + 1\<close>, a duration of zero and an empty descriptor each fail with a
  ValidationError, whatever the other arguments are.
\<close>

theorem createJob_boundaries:
  "(amt = MIN_AMOUNT \<and> 0 < duration \<and> duration \<le> MAX_DURATION \<and> jh \<noteq> []
      \<and> unat (jobCount s) + 1 < 2 ^ 256 \<and> unat now + unat duration < 2 ^ 256
      \<and> unat amt \<le> balanceOf (usdc s) sender \<and> unat amt \<le> allowance (usdc s) sender \<longrightarrow>
      (\<exists>jobId s'. createJob H sender now wkr amt duration jh s = Inr (jobId, s')))
   \<and> (amt = MIN_AMOUNT - 1 \<longrightarrow>
        createJob H sender now wkr amt duration jh s = Inl (Revert ''Amount too small'')
        \<and> kind (Revert ''Amount too small'') = ValidationError)
   \<and> (duration = MAX_DURATION \<and> MIN_AMOUNT \<le> amt \<and> jh \<noteq> []
      \<and> unat (jobCount s) + 1 < 2 ^ 256 \<and> unat now + unat duration < 2 ^ 256
      \<and> unat amt \<le> balanceOf (usdc s) sender \<and> unat amt \<le> allowance (usdc s) sender \<longrightarrow>
      (\<exists>jobId s'. createJob H sender now wkr amt duration jh s = Inr (jobId, s')))
   \<and> (duration = MAX_DURATION + 1 \<or> duration = 0 \<or> jh = [] \<longrightarrow>
        (\<exists>e. createJob H sender now wkr amt duration jh s = Inl e \<and> kind e = ValidationError))"
proof (intro conjI impI)
  assume "amt = MIN_AMOUNT \<and> 0 < duration \<and> duration \<le> MAX_DURATION \<and> jh \<noteq> []
      \<and> unat (jobCount s) + 1 < 2 ^ 256 \<and> unat now + unat duration < 2 ^ 256
      \<and> unat amt \<le> balanceOf (usdc s) sender \<and> unat amt \<le> allowance (usdc s) sender"
  then show "\<exists>jobId s'. createJob H sender now wkr amt duration jh s = Inr (jobId, s')"
    by (auto simp: createJob_Inr)
next
  assume "amt = MIN_AMOUNT - 1"
  then show "createJob H sender now wkr amt duration jh s = Inl (Revert ''Amount too small'')"
    by (simp add: createJob_def MIN_AMOUNT_def)
next
  show "kind (Revert ''Amount too small'') = ValidationError"
    by (rule kind_simps)
next
  assume "duration = MAX_DURATION \<and> MIN_AMOUNT \<le> amt \<and> jh \<noteq> []
      \<and> unat (jobCount s) + 1 < 2 ^ 256 \<and> unat now + unat duration < 2 ^ 256
      \<and> unat amt \<le> balanceOf (usdc s) sender \<and> unat amt \<le> allowance (usdc s) sender"
  moreover have "0 < MAX_DURATION"
    by (simp add: MAX_DURATION_def days_def)
  ultimately show "\<exists>jobId s'. createJob H sender now wkr amt duration jh s = Inr (jobId, s')"
    by (auto simp: createJob_Inr)
next
  assume b: "duration = MAX_DURATION + 1 \<or> duration = 0 \<or> jh = []"
  have "\<not> MAX_DURATION + 1 \<le> MAX_DURATION"
    by (simp add: MAX_DURATION_def days_def)
  with b have "createJob H sender now wkr amt duration jh s = Inl (Revert ''Amount too small'')
      \<or> createJob H sender now wkr amt duration jh s = Inl (Revert ''Invalid duration'')
      \<or> createJob H sender now wkr amt duration jh s = Inl (Revert ''Job hash required'')"
    by (auto simp: createJob_def)
  then show "\<exists>e. createJob H sender now wkr amt duration jh s = Inl e \<and> kind e = ValidationError"
    using kind_simps(1,2,3) by metis
qed

theorem createJob_boundaries_witness:
  "MIN_AMOUNT = 1000000 \<and> MAX_DURATION = 2592000
   \<and> \<not> isl (createJob counter_id 1 100 0 1000000 2592000 ''h'' demo_deployed)
   \<and> createJob counter_id 1 100 0 999999 2592000 ''h'' demo_deployed
        = Inl (Revert ''Amount too small'')
   \<and> kind (projl (createJob counter_id 1 100 0 1000000 2592001 ''h'' demo_deployed))
        = ValidationError
   \<and> kind (projl (createJob counter_id 1 100 0 1000000 0 ''h'' demo_deployed))
        = ValidationError
   \<and> kind (projl (createJob counter_id 1 100 0 1000000 2592000 [] demo_deployed))
        = ValidationError"
proof -
  let ?s = demo_deployed
  have c: "MIN_AMOUNT = 1000000" "MAX_DURATION = 2592000" "MIN_AMOUNT - 1 = 999999"
    "MAX_DURATION + 1 = 2592001"
    by (simp_all add: MIN_AMOUNT_def MAX_DURATION_def days_def)
  have env: "unat (jobCount ?s) + 1 < 2 ^ 256" "unat (100 :: uint256) + unat (2592000 :: uint256) < 2 ^ 256"
    "unat (1000000 :: uint256) \<le> balanceOf (usdc ?s) 1"
    "unat (1000000 :: uint256) \<le> allowance (usdc ?s) 1"
    by (simp_all add: demo_deployed_def deployed_def demo_asset_def)
  note t = createJob_boundaries [where H = counter_id and sender = 1 and now = 100 and wkr = 0
      and s = ?s]
  from t [where amt = 1000000 and duration = 2592000 and jh = "''h''"] c env
  have "\<exists>jobId s'. createJob counter_id 1 100 0 1000000 2592000 ''h'' ?s = Inr (jobId, s')"
    by simp
  then have at_min: "\<not> isl (createJob counter_id 1 100 0 1000000 2592000 ''h'' ?s)"
    by auto
  from t [where amt = 999999 and duration = 2592000 and jh = "''h''"] c
  have below: "createJob counter_id 1 100 0 999999 2592000 ''h'' ?s = Inl (Revert ''Amount too small'')"
    by simp
  from t [where amt = 1000000 and duration = 2592001 and jh = "''h''"] c
  obtain e1 where "createJob counter_id 1 100 0 1000000 2592001 ''h'' ?s = Inl e1"
    and "kind e1 = ValidationError"
    by auto
  then have above: "kind (projl (createJob counter_id 1 100 0 1000000 2592001 ''h'' ?s)) = ValidationError"
    by simp
  from t [where amt = 1000000 and duration = 0 and jh = "''h''"]
  obtain e2 where "createJob counter_id 1 100 0 1000000 0 ''h'' ?s = Inl e2"
    and "kind e2 = ValidationError"
    by auto
  then have zero: "kind (projl (createJob counter_id 1 100 0 1000000 0 ''h'' ?s)) = ValidationError"
    by simp
  from t [where amt = 1000000 and duration = 2592000 and jh = "[]"]
  obtain e3 where "createJob counter_id 1 100 0 1000000 2592000 [] ?s = Inl e3"
    and "kind e3 = ValidationError"
    by auto
  then have nohash: "kind (projl (createJob counter_id 1 100 0 1000000 2592000 [] ?s)) = ValidationError"
    by simp
  from c(1,2) at_min below above zero nohash show ?thesis by blast
qed

text \<open>
  C8 (\<^verbatim>\<open>cancelJob\<close>), as first stated: the call succeeds exactly when the caller is the
  client, the status is Created, and the worker is unassigned or the deadline has passed.
  It does not: the refund is the last step of the call, and when the client's account has
  begun to reject receipt since the job was created, the call fails although all the
  conditions hold.
\<close>

theorem cancelJob_guards_counterexample:
  "reachable counter_id demo_refused
   \<and> 1 = client (jobs demo_refused 0)
   \<and> status (jobs demo_refused 0) = Created
   \<and> worker (jobs demo_refused 0) = address0
   \<and> cancelJob 1 200 0 demo_refused = Inl PushFailed"
  using reachable_demo_refused by (simp add: demo_refused_eq eval_defs)

text \<open>
  C8 (\<^verbatim>\<open>cancelJob\<close>), amended. The call succeeds exactly when the caller is the client, the
  status is Created, the worker is unassigned or the time is strictly later than the
  deadline, and the push of the amount back to the client goes through; in a reachable
  state that is exactly if the client's account does not reject receipt. If only the push
  fails the call fails with TransferFailure. On success the status is Cancelled, nothing
  else in the job changes, and the amount has been transferred from the engine to the
  client. The client of a job that exists in a reachable state is never the engine itself,
  so in every reachable state the balance the engine holds has dropped by the amount and
  that of the client has risen by it.
\<close>

theorem cancelJob_exactly_when:
  "((\<exists>s'. cancelJob sender now jobId s = Inr s') \<longleftrightarrow>
      sender = client (jobs s jobId)
      \<and> status (jobs s jobId) = Created
      \<and> (worker (jobs s jobId) = address0 \<or> unat (deadline (jobs s jobId)) < unat now)
      \<and> (\<exists>t'. push (usdc s) (this_address s) (client (jobs s jobId))
            (unat (amount (jobs s jobId))) = Inr t'))
   \<and> (sender = client (jobs s jobId)
        \<and> status (jobs s jobId) = Created
        \<and> (worker (jobs s jobId) = address0 \<or> unat (deadline (jobs s jobId)) < unat now)
        \<and> (\<forall>t'. push (usdc s) (this_address s) (client (jobs s jobId))
              (unat (amount (jobs s jobId))) \<noteq> Inr t') \<longrightarrow>
        cancelJob sender now jobId s = Inl PushFailed \<and> kind PushFailed = TransferFailure)
   \<and> (cancelJob sender now jobId s = Inr s' \<longrightarrow>
        jobs s' = (jobs s)(jobId := (jobs s jobId)\<lparr>status := Cancelled\<rparr>)
        \<and> push (usdc s) (this_address s) (client (jobs s jobId))
            (unat (amount (jobs s jobId))) = Inr (usdc s')
        \<and> (client (jobs s jobId) \<noteq> this_address s \<longrightarrow>
              held s' + unat (amount (jobs s jobId)) = held s
              \<and> balanceOf (usdc s') = (balanceOf (usdc s))
                  (this_address s := held s - unat (amount (jobs s jobId)),
                   client (jobs s jobId) :=
                     balanceOf (usdc s) (client (jobs s jobId)) + unat (amount (jobs s jobId)))))
   \<and> (reachable H s \<and> jobs s jobId \<noteq> empty_job \<longrightarrow>
        client (jobs s jobId) \<noteq> this_address s)
   \<and> (reachable H s \<and> cancelJob sender now jobId s = Inr s' \<longrightarrow>
        held s' + unat (amount (jobs s jobId)) = held s
        \<and> balanceOf (usdc s') = (balanceOf (usdc s))
            (this_address s := held s - unat (amount (jobs s jobId)),
             client (jobs s jobId) :=
               balanceOf (usdc s) (client (jobs s jobId)) + unat (amount (jobs s jobId))))
   \<and> (reachable H s \<and> \<not> terminal (status (jobs s jobId)) \<longrightarrow>
        ((\<exists>t'. push (usdc s) (this_address s) (client (jobs s jobId))
            (unat (amount (jobs s jobId))) = Inr t')
          \<longleftrightarrow> \<not> rejects (usdc s) (client (jobs s jobId))))"
proof (intro conjI impI)
  show "(\<exists>s'. cancelJob sender now jobId s = Inr s') \<longleftrightarrow>
      sender = client (jobs s jobId)
      \<and> status (jobs s jobId) = Created
      \<and> (worker (jobs s jobId) = address0 \<or> unat (deadline (jobs s jobId)) < unat now)
      \<and> (\<exists>t'. push (usdc s) (this_address s) (client (jobs s jobId))
            (unat (amount (jobs s jobId))) = Inr t')"
    by (auto simp: cancelJob_Inr push_Inr held_def word_less_nat_alt)
next
  assume "sender = client (jobs s jobId)
        \<and> status (jobs s jobId) = Created
        \<and> (worker (jobs s jobId) = address0 \<or> unat (deadline (jobs s jobId)) < unat now)
        \<and> (\<forall>t'. push (usdc s) (this_address s) (client (jobs s jobId))
              (unat (amount (jobs s jobId))) \<noteq> Inr t')"
  then show "cancelJob sender now jobId s = Inl PushFailed"
    by (auto simp: cancelJob_def Let_def push_def word_less_nat_alt split: sum.splits if_splits)
next
  show "kind PushFailed = TransferFailure" by simp
next
  assume r: "cancelJob sender now jobId s = Inr s'"
  then show "jobs s' = (jobs s)(jobId := (jobs s jobId)\<lparr>status := Cancelled\<rparr>)"
    and "push (usdc s) (this_address s) (client (jobs s jobId))
            (unat (amount (jobs s jobId))) = Inr (usdc s')"
    by (simp_all add: cancelJob_Inr push_Inr held_def)
next
  assume r: "cancelJob sender now jobId s = Inr s'"
    and ne: "client (jobs s jobId) \<noteq> this_address s"
  from r have le: "unat (amount (jobs s jobId)) \<le> held s"
    and b: "balanceOf (usdc s') = move (balanceOf (usdc s)) (this_address s)
        (client (jobs s jobId)) (unat (amount (jobs s jobId)))"
    and a: "this_address s' = this_address s"
    by (simp_all add: cancelJob_Inr)
  from b ne show "balanceOf (usdc s') = (balanceOf (usdc s))
                  (this_address s := held s - unat (amount (jobs s jobId)),
                   client (jobs s jobId) :=
                     balanceOf (usdc s) (client (jobs s jobId)) + unat (amount (jobs s jobId)))"
    by (simp add: move_apart held_def)
  with a ne le show "held s' + unat (amount (jobs s jobId)) = held s"
    by (simp add: held_def)
next
  assume "reachable H s \<and> jobs s jobId \<noteq> empty_job"
  then show "client (jobs s jobId) \<noteq> this_address s"
    using reachable_accounted(2) [of H s] by (simp add: clients_outside_def)
next
  assume "reachable H s \<and> cancelJob sender now jobId s = Inr s'"
  then have c: "clients_outside s" and r: "cancelJob sender now jobId s = Inr s'"
    by (blast intro: reachable_accounted(2))+
  from c have ne: "client (jobs s jobId) \<noteq> this_address s \<or> unat (amount (jobs s jobId)) = 0"
    by (cases "jobs s jobId = empty_job") (simp_all add: clients_outside_def)
  from r have le: "unat (amount (jobs s jobId)) \<le> balanceOf (usdc s) (this_address s)"
    and b: "balanceOf (usdc s') = move (balanceOf (usdc s)) (this_address s)
        (client (jobs s jobId)) (unat (amount (jobs s jobId)))"
    and a: "this_address s' = this_address s"
    by (simp_all add: cancelJob_Inr held_def)
  from move_paid [OF b le ne] a
  show "held s' + unat (amount (jobs s jobId)) = held s"
    and "balanceOf (usdc s') = (balanceOf (usdc s))
            (this_address s := held s - unat (amount (jobs s jobId)),
             client (jobs s jobId) :=
               balanceOf (usdc s) (client (jobs s jobId)) + unat (amount (jobs s jobId)))"
    by (simp_all add: held_def)
next
  assume "reachable H s \<and> \<not> terminal (status (jobs s jobId))"
  then have "unat (amount (jobs s jobId)) \<le> held s"
    by (blast intro: reachable_held)
  then show "(\<exists>t'. push (usdc s) (this_address s) (client (jobs s jobId))
            (unat (amount (jobs s jobId))) = Inr t')
          \<longleftrightarrow> \<not> rejects (usdc s) (client (jobs s jobId))"
    by (simp add: push_def held_def)
qed

theorem cancelJob_exactly_when_witness:
  "status (jobs (projr (cancelJob 1 200 0 demo_open)) 0) = Cancelled
   \<and> client (jobs demo_open 0) \<noteq> this_address demo_open
   \<and> balanceOf (usdc (projr (cancelJob 1 200 0 demo_open))) 1 = 5000000
   \<and> held (projr (cancelJob 1 200 0 demo_open)) = 0
   \<and> cancelJob 1 200 0 demo_refused = Inl PushFailed
   \<and> \<not> rejects (usdc demo_open) (client (jobs demo_open 0))"
proof -
  let ?s' = "projr (cancelJob 1 200 0 demo_open)"
  have ok: "cancelJob 1 200 0 demo_open = Inr ?s'"
    by (simp add: demo_open_eq eval_defs)
  have a: "client (jobs demo_open 0) = 1" "unat (amount (jobs demo_open 0)) = 1000000"
    "held demo_open = 1000000" "balanceOf (usdc demo_open) 1 = 4000000"
    "status (jobs demo_open 0) = Created" "this_address demo_open = 9"
    by (simp_all add: demo_open_eq held_def)
  note t = cancelJob_exactly_when [of 1 200 0 demo_open ?s' counter_id]
  have "jobs demo_open 0 \<noteq> empty_job"
    by (simp add: demo_open_eq empty_job_def)
  with t reachable_demo_open
  have outside: "client (jobs demo_open 0) \<noteq> this_address demo_open"
    by blast
  note fin = t [THEN conjunct2, THEN conjunct2, THEN conjunct1, rule_format, OF ok]
  note run = t [THEN conjunct2, THEN conjunct2, THEN conjunct2, THEN conjunct2, THEN conjunct1,
      rule_format, OF conjI [OF reachable_demo_open ok]]
  from fin run have "status (jobs ?s' 0) = Cancelled"
    and "held ?s' + unat (amount (jobs demo_open 0)) = held demo_open"
    and "balanceOf (usdc ?s') = (balanceOf (usdc demo_open))
        (this_address demo_open := held demo_open - unat (amount (jobs demo_open 0)),
         client (jobs demo_open 0) := balanceOf (usdc demo_open)
           (client (jobs demo_open 0)) + unat (amount (jobs demo_open 0)))"
    by simp_all
  with a have paid: "status (jobs ?s' 0) = Cancelled"
    "balanceOf (usdc ?s') 1 = 5000000" "held ?s' = 0"
    by simp_all
  have "\<exists>t'. push (usdc demo_open) (this_address demo_open) (client (jobs demo_open 0))
      (unat (amount (jobs demo_open 0))) = Inr t'"
    using t [THEN conjunct1] ok by blast
  moreover have "reachable counter_id demo_open \<and> \<not> terminal (status (jobs demo_open 0))"
    by (simp add: reachable_demo_open a terminal_def)
  ultimately have accepts: "\<not> rejects (usdc demo_open) (client (jobs demo_open 0))"
    using t [THEN conjunct2, THEN conjunct2, THEN conjunct2, THEN conjunct2, THEN conjunct2]
    by blast
  have "1 = client (jobs demo_refused 0)
      \<and> status (jobs demo_refused 0) = Created
      \<and> (worker (jobs demo_refused 0) = address0
          \<or> unat (deadline (jobs demo_refused 0)) < unat (200 :: uint256))
      \<and> (\<forall>t'. push (usdc demo_refused) (this_address demo_refused)
            (client (jobs demo_refused 0)) (unat (amount (jobs demo_refused 0))) \<noteq> Inr t')"
    by (simp add: demo_refused_eq address0_def push_def)
  with cancelJob_exactly_when [of 1 200 0 demo_refused]
  have rejected: "cancelJob 1 200 0 demo_refused = Inl PushFailed"
    by blast
  from paid outside accepts rejected show ?thesis by blast
qed

text \<open>
  C6 (the worker is written once). Along any run, a worker that is assigned stays the
  same. A successful call changes the worker of a job only if the job had none: the call
  is either \<^verbatim>\<open>acceptJob\<close> on that job, which writes the caller, or the \<^verbatim>\<open>createJob\<close> that
  creates the job in a slot never written. \<^verbatim>\<open>acceptJob\<close> succeeds only on a job without
  a worker.
\<close>

theorem worker_write_once:
  "(steps H s s' \<and> worker (jobs s j) \<noteq> address0 \<longrightarrow> worker (jobs s' j) = worker (jobs s j))
   \<and> (sender \<noteq> address0 \<and> fresh_id H sender now c s0 \<and> exec H sender now c s0 = Inr s1
        \<and> worker (jobs s1 j) \<noteq> worker (jobs s0 j) \<longrightarrow>
        worker (jobs s0 j) = address0
        \<and> (c = AcceptJob j \<and> worker (jobs s1 j) = sender
           \<or> jobs s0 j = empty_job
             \<and> (\<exists>wkr amt duration jh. c = CreateJob wkr amt duration jh
                  \<and> j = H sender wkr amt now (jobCount s0) \<and> worker (jobs s1 j) = wkr)))
   \<and> (acceptJob sender now j s0 = Inr s1 \<longrightarrow>
        worker (jobs s0 j) = address0 \<and> worker (jobs s1 j) = sender)"
proof (intro conjI impI)
  assume "steps H s s' \<and> worker (jobs s j) \<noteq> address0"
  then show "worker (jobs s' j) = worker (jobs s j)"
    by (blast intro: steps_worker)
next
  assume a: "sender \<noteq> address0 \<and> fresh_id H sender now c s0 \<and> exec H sender now c s0 = Inr s1
        \<and> worker (jobs s1 j) \<noteq> worker (jobs s0 j)"
  then have e: "exec H sender now c s0 = Inr s1" and n: "sender \<noteq> address0"
    and f: "fresh_id H sender now c s0" and w: "worker (jobs s1 j) \<noteq> worker (jobs s0 j)"
    by simp_all
  from exec_job [OF e n f, of j] w
  show "worker (jobs s0 j) = address0"
    by (elim disjE exE conjE) (simp_all add: address0_def)
  from exec_job [OF e n f, of j] w
  show "c = AcceptJob j \<and> worker (jobs s1 j) = sender
           \<or> jobs s0 j = empty_job
             \<and> (\<exists>wkr amt duration jh. c = CreateJob wkr amt duration jh
                  \<and> j = H sender wkr amt now (jobCount s0) \<and> worker (jobs s1 j) = wkr)"
    by (elim disjE exE conjE) simp_all
next
  assume "acceptJob sender now j s0 = Inr s1"
  then show "worker (jobs s0 j) = address0" and "worker (jobs s1 j) = sender"
    by (simp_all add: acceptJob_Inr)
qed

theorem worker_write_once_witness:
  "worker (jobs demo_open 0) = address0
   \<and> worker (jobs demo_funded 0) = 2
   \<and> worker (jobs demo_disputed 0) = worker (jobs demo_funded 0)"
proof -
  have r: "acceptJob 2 200 0 demo_open = Inr demo_funded"
    using demo_funded_exec by simp
  have n: "worker (jobs demo_funded 0) \<noteq> address0"
    by (simp add: demo_funded_eq address0_def)
  have ch: "worker (jobs demo_funded 0) \<noteq> worker (jobs demo_open 0)"
    by (simp add: demo_funded_eq demo_open_eq)
  note t = worker_write_once [of counter_id demo_funded demo_disputed 0 2 200 "AcceptJob 0"
      demo_open demo_funded]
  from t demo_disputed_step n
  have a: "worker (jobs demo_disputed 0) = worker (jobs demo_funded 0)"
    by (blast intro: step_steps)
  from t r have b: "worker (jobs demo_funded 0) = 2"
    by blast
  have "(2 :: address) \<noteq> address0" "fresh_id counter_id 2 200 (AcceptJob 0) demo_open"
    by (simp_all add: address0_def)
  with t demo_funded_exec ch
  have c: "worker (jobs demo_open 0) = address0"
    by blast
  from a b c show ?thesis by blast
qed

text \<open>
  C5 (status monotonicity), as first stated: every move of a status is an edge of the
  graph Created to Funded, Funded to Completed or Disputed, Disputed to Resolved, Created
  to Cancelled. It is not: \<^verbatim>\<open>completeJob\<close> accepts a job that is still Created, so a job
  created for a named worker goes from Created to Completed in one call of its client.
\<close>

theorem status_graph_counterexample:
  "reachable counter_id demo_assigned
   \<and> status (jobs demo_assigned 0) = Created
   \<and> step counter_id demo_assigned demo_completed
   \<and> status (jobs demo_completed 0) = Completed
   \<and> \<not> spec_transition Created Completed"
  using reachable_demo_assigned demo_completed_step
  by (simp add: demo_assigned_eq demo_completed_eq spec_transition_def)

text \<open>
  C5 (status monotonicity), amended. Every step leaves the status of a job as it is or
  moves it along an edge of the graph of the contract, which is the graph of the
  specification with the edge from Created to Completed added. No job comes back to a
  status it has left: if a run is at the same status at its start and at its end, it is at
  that status in between. A status that is Completed, Resolved or Cancelled never changes.
\<close>

theorem status_monotone:
  "(step H s s' \<longrightarrow>
      status (jobs s' j) = status (jobs s j)
      \<or> transition (status (jobs s j)) (status (jobs s' j)))
   \<and> (steps H s0 s1 \<and> steps H s1 s2 \<and> status (jobs s2 j) = status (jobs s0 j) \<longrightarrow>
        status (jobs s1 j) = status (jobs s0 j))
   \<and> (steps H s0 s1 \<and> terminal (status (jobs s0 j)) \<longrightarrow>
        status (jobs s1 j) = status (jobs s0 j))
   \<and> (transition a b \<longleftrightarrow> spec_transition a b \<or> a = Created \<and> b = Completed)"
proof (intro conjI impI)
  assume "step H s s'"
  then show "status (jobs s' j) = status (jobs s j)
      \<or> transition (status (jobs s j)) (status (jobs s' j))"
    by (rule step_status)
next
  assume a: "steps H s0 s1 \<and> steps H s1 s2 \<and> status (jobs s2 j) = status (jobs s0 j)"
  then have "steps H s0 s1" and "steps H s1 s2"
    by simp_all
  from steps_rank [OF this(1), of j] steps_rank [OF this(2), of j] a
  show "status (jobs s1 j) = status (jobs s0 j)"
    by auto
next
  assume "steps H s0 s1 \<and> terminal (status (jobs s0 j))"
  then show "status (jobs s1 j) = status (jobs s0 j)"
    by (blast intro: steps_terminal)
next
  show "transition a b \<longleftrightarrow> spec_transition a b \<or> a = Created \<and> b = Completed"
    by (auto simp: transition_def spec_transition_def)
qed

theorem status_monotone_witness:
  "transition (status (jobs demo_open 0)) (status (jobs demo_funded 0))
   \<and> status (jobs demo_disputed 0) \<noteq> status (jobs demo_open 0)
   \<and> status (jobs (demo_completed\<lparr>usdc := (usdc demo_completed)
        \<lparr>balanceOf := (\<lambda>_. 7), allowance := (\<lambda>_. 0), rejects := (\<lambda>_. False)\<rparr>\<rparr>) 0) = Completed"
proof -
  let ?s2 = "demo_completed\<lparr>usdc := (usdc demo_completed)
        \<lparr>balanceOf := (\<lambda>_. 7), allowance := (\<lambda>_. 0), rejects := (\<lambda>_. False)\<rparr>\<rparr>"
  have d: "status (jobs demo_funded 0) \<noteq> status (jobs demo_open 0)"
    by (simp add: demo_funded_eq demo_open_eq)
  have "steps counter_id demo_completed ?s2"
    by (rule step_steps, rule step.outside) (simp add: demo_completed_eq)
  moreover have "terminal (status (jobs demo_completed 0))"
    and c: "status (jobs demo_completed 0) = Completed"
    by (simp_all add: demo_completed_eq terminal_def)
  ultimately have "status (jobs ?s2 0) = status (jobs demo_completed 0)"
    using status_monotone [of counter_id demo_open demo_funded 0 demo_completed ?s2]
    by blast
  with c have fixed: "status (jobs ?s2 0) = Completed"
    by simp
  have moves: "transition (status (jobs demo_open 0)) (status (jobs demo_funded 0))"
    using status_monotone [of counter_id demo_open demo_funded 0] demo_funded_step d
    by blast
  have "steps counter_id demo_open demo_funded" and "steps counter_id demo_funded demo_disputed"
    using demo_funded_step demo_disputed_step by (blast intro: step_steps)+
  with status_monotone [of counter_id _ _ 0 demo_open demo_funded demo_disputed] d
  have "status (jobs demo_disputed 0) \<noteq> status (jobs demo_open 0)"
    by blast
  with moves fixed show ?thesis by blast
qed

text \<open>
  C4 (\<^verbatim>\<open>extendDeadline\<close>), as first stated: the engine provides an operation of that name
  that moves a deadline upward within a cap. It does not: no function of the contract
  and no entry of the interface that \<^verbatim>\<open>src/index.js\<close> declares has that name.
\<close>

theorem extendDeadline_counterexample:
  "''extendDeadline'' \<notin> set (map abi_name ESCROW_ABI)
   \<and> ''extendDeadline'' \<notin> range call_name
   \<and> map abi_name ESCROW_ABI =
       [''createJob'', ''acceptJob'', ''completeJob'', ''cancelJob'', ''disputeJob'',
        ''resolveDispute'', ''getJob'', ''getAgentJobs'', ''JobCreated'', ''JobCompleted'']"
proof -
  have "map abi_name ESCROW_ABI =
       [''createJob'', ''acceptJob'', ''completeJob'', ''cancelJob'', ''disputeJob'',
        ''resolveDispute'', ''getJob'', ''getAgentJobs'', ''JobCreated'', ''JobCompleted'']"
    by (simp add: ESCROW_ABI_def abi_name_def)
  moreover from this have "''extendDeadline'' \<notin> set (map abi_name ESCROW_ABI)"
    by simp
  moreover have "''extendDeadline'' \<notin> range call_name"
  proof
    assume "''extendDeadline'' \<in> range call_name"
    then obtain c where "call_name c = ''extendDeadline''"
      by auto
    with call_name_range [of c] show False
      by simp
  qed
  ultimately show ?thesis by blast
qed

text \<open>
  C4, amended. The deadline of a job is written once, by \<^verbatim>\<open>createJob\<close>, as the time of the
  call plus the duration, which is more than 0 and at most 30 days; along any run the
  deadline of a job that exists stays the same.
\<close>

theorem deadline_fixed:
  "(createJob H sender now wkr amt duration jh s = Inr (jobId, s') \<longrightarrow>
      unat (deadline (jobs s' jobId)) = unat now + unat duration
      \<and> 0 < unat duration \<and> unat duration \<le> unat (days 30))
   \<and> (steps H s0 s1 \<and> jobs s0 j \<noteq> empty_job \<longrightarrow>
        deadline (jobs s1 j) = deadline (jobs s0 j))"
proof (intro conjI impI)
  assume r: "createJob H sender now wkr amt duration jh s = Inr (jobId, s')"
  then show "unat (deadline (jobs s' jobId)) = unat now + unat duration"
    by (simp add: createJob_Inr unat_checked_sum)
  from r show "0 < unat duration" and "unat duration \<le> unat (days 30)"
    by (simp_all add: createJob_Inr MAX_DURATION_def word_less_nat_alt word_le_nat_alt)
next
  assume "steps H s0 s1 \<and> jobs s0 j \<noteq> empty_job"
  then show "deadline (jobs s1 j) = deadline (jobs s0 j)"
    using steps_fixed by blast
qed

theorem deadline_fixed_witness:
  "deadline (jobs demo_open 0) = 2592100
   \<and> deadline (jobs demo_disputed 0) = 2592100"
proof -
  have e: "createJob counter_id 1 100 0 1000000 2592000 ''h'' demo_deployed
      = Inr (0, demo_open)"
    by (simp add: demo_open_eq eval_defs)
  note t = deadline_fixed [of counter_id 1 100 0 1000000 2592000 "''h''" demo_deployed 0
      demo_open demo_open demo_disputed 0]
  from t e have "unat (deadline (jobs demo_open 0)) = unat (100 :: uint256) + unat (2592000 :: uint256)"
    by blast
  then have "unat (deadline (jobs demo_open 0)) = unat (2592100 :: uint256)"
    by simp
  then have a: "deadline (jobs demo_open 0) = 2592100"
    by (simp only: word_unat_eq_iff)
  have "jobs demo_open 0 \<noteq> empty_job"
    by (simp add: demo_open_eq empty_job_def)
  with t demo_disputed_steps have "deadline (jobs demo_disputed 0) = deadline (jobs demo_open 0)"
    by blast
  with a show ?thesis by simp
qed

text \<open>
  C9 (a job created for a named worker). \<^verbatim>\<open>createJob\<close> with a worker other than
  \<^verbatim>\<open>address(0)\<close> leaves the job Created with that worker. From such a state, along any run,
  the worker stays and the status is Created, Completed or Cancelled, never Funded or
  Disputed; \<^verbatim>\<open>acceptJob\<close> and \<^verbatim>\<open>disputeJob\<close> fail on the job for every caller at every time.
  The call that takes the job out of Created is made by its client and is either
  \<^verbatim>\<open>completeJob\<close>, which leaves it Completed, or \<^verbatim>\<open>cancelJob\<close> strictly after the deadline,
  which leaves it Cancelled.
\<close>

theorem preassigned_never_funded:
  "(createJob H sender now wkr amt duration jh s = Inr (j, s0) \<and> wkr \<noteq> address0 \<longrightarrow>
      status (jobs s0 j) = Created \<and> worker (jobs s0 j) = wkr)
   \<and> (status (jobs s0 j) = Created \<and> worker (jobs s0 j) \<noteq> address0 \<and> steps H s0 s1 \<longrightarrow>
        worker (jobs s1 j) = worker (jobs s0 j)
        \<and> (status (jobs s1 j) = Created \<or> status (jobs s1 j) = Completed
           \<or> status (jobs s1 j) = Cancelled)
        \<and> isl (acceptJob a t j s1) \<and> isl (disputeJob a j s1))
   \<and> (status (jobs s1 j) = Created \<and> worker (jobs s1 j) \<noteq> address0 \<and> a \<noteq> address0
        \<and> fresh_id H a t c s1 \<and> exec H a t c s1 = Inr s2 \<and> status (jobs s2 j) \<noteq> Created \<longrightarrow>
        a = client (jobs s1 j)
        \<and> (c = CompleteJob j \<and> status (jobs s2 j) = Completed
           \<or> c = CancelJob j \<and> unat (deadline (jobs s1 j)) < unat t
             \<and> status (jobs s2 j) = Cancelled))"
proof (intro conjI impI)
  assume "createJob H sender now wkr amt duration jh s = Inr (j, s0) \<and> wkr \<noteq> address0"
  then show "status (jobs s0 j) = Created" and "worker (jobs s0 j) = wkr"
    by (simp_all add: createJob_Inr)
next
  assume a: "status (jobs s0 j) = Created \<and> worker (jobs s0 j) \<noteq> address0 \<and> steps H s0 s1"
  with steps_preassigned [of H s0 s1 j]
  have w: "worker (jobs s1 j) = worker (jobs s0 j)"
    and st: "status (jobs s1 j) = Created \<or> status (jobs s1 j) = Completed
           \<or> status (jobs s1 j) = Cancelled"
    by simp_all
  from w show "worker (jobs s1 j) = worker (jobs s0 j)" .
  from st show "status (jobs s1 j) = Created \<or> status (jobs s1 j) = Completed
           \<or> status (jobs s1 j) = Cancelled" .
  from w a have "worker (jobs s1 j) \<noteq> address0"
    by simp
  then show "isl (acceptJob a t j s1)"
    by (simp add: acceptJob_def Let_def)
  from st show "isl (disputeJob a j s1)"
    by (auto simp: disputeJob_def Let_def)
next
  assume h: "status (jobs s1 j) = Created \<and> worker (jobs s1 j) \<noteq> address0 \<and> a \<noteq> address0
        \<and> fresh_id H a t c s1 \<and> exec H a t c s1 = Inr s2 \<and> status (jobs s2 j) \<noteq> Created"
  then have e: "exec H a t c s1 = Inr s2" and n: "a \<noteq> address0" and f: "fresh_id H a t c s1"
    by simp_all
  from exec_job [OF e n f, of j] h
  show "a = client (jobs s1 j)"
    by (elim disjE exE conjE) simp_all
  from exec_job [OF e n f, of j] h
  show "c = CompleteJob j \<and> status (jobs s2 j) = Completed
           \<or> c = CancelJob j \<and> unat (deadline (jobs s1 j)) < unat t
             \<and> status (jobs s2 j) = Cancelled"
    by (elim disjE exE conjE) (simp_all add: word_less_nat_alt)
qed

theorem preassigned_never_funded_witness:
  "status (jobs demo_assigned 0) = Created
   \<and> worker (jobs demo_assigned 0) = 2
   \<and> worker (jobs demo_completed 0) = worker (jobs demo_assigned 0)
   \<and> isl (acceptJob 2 200 0 demo_assigned) \<and> isl (disputeJob 2 0 demo_assigned)
   \<and> isl (acceptJob 5 300 0 demo_completed) \<and> isl (disputeJob 1 0 demo_completed)
   \<and> 1 = client (jobs demo_assigned 0)"
proof -
  have e: "createJob counter_id 1 100 2 1000000 2592000 ''h'' demo_deployed
      = Inr (0, demo_assigned)"
    by (simp add: demo_assigned_eq eval_defs)
  have n: "(2 :: address) \<noteq> address0" "(1 :: address) \<noteq> address0"
    by (simp_all add: address0_def)
  from preassigned_never_funded [of counter_id 1 100 2 1000000 2592000 "''h''"
      demo_deployed 0 demo_assigned] e n
  have made: "status (jobs demo_assigned 0) = Created" "worker (jobs demo_assigned 0) = 2"
    by blast+
  with n have p: "status (jobs demo_assigned 0) = Created \<and> worker (jobs demo_assigned 0) \<noteq> address0"
    by simp
  note t = preassigned_never_funded [where H = counter_id and j = 0 and ?s0.0 = demo_assigned]
  from t [where ?s1.0 = demo_assigned and a = 2 and t = 200] p steps.here
  have first: "isl (acceptJob 2 200 0 demo_assigned)" "isl (disputeJob 2 0 demo_assigned)"
    by blast+
  have "steps counter_id demo_assigned demo_completed"
    using demo_completed_step by (rule step_steps)
  with t [where ?s1.0 = demo_completed and a = 5 and t = 300]
    t [where ?s1.0 = demo_completed and a = 1 and t = 300] p
  have after: "worker (jobs demo_completed 0) = worker (jobs demo_assigned 0)"
    "isl (acceptJob 5 300 0 demo_completed)" "isl (disputeJob 1 0 demo_completed)"
    by blast+
  have "status (jobs demo_completed 0) \<noteq> Created"
    "fresh_id counter_id 1 200 (CompleteJob 0) demo_assigned"
    by (simp_all add: demo_completed_eq)
  with t [where ?s1.0 = demo_assigned and a = 1 and t = 200 and c = "CompleteJob 0"
      and ?s2.0 = demo_completed] p n demo_completed_exec
  have by_client: "1 = client (jobs demo_assigned 0)"
    by blast
  from made first after by_client show ?thesis by blast
qed

text \<open>
  C10 (\<^verbatim>\<open>getJob\<close> on an identifier that was never created). In a reachable state, for an
  identifier with no JobCreated event in the log, the contract's \<^verbatim>\<open>getJob\<close> answers with the
  record of default values: both addresses zero, amount, deadline and creation time 0,
  the empty descriptor, status Created. \<^verbatim>\<open>getJob\<close> of \<^verbatim>\<open>src/index.js\<close> does not throw on
  it and reports the status \<^verbatim>\<open>Created\<close>. A job that \<^verbatim>\<open>createJob\<close> has just created is
  reported with the same status.
\<close>

theorem getJob_never_created:
  "(reachable H s \<and> \<not> was_created s jobId \<longrightarrow>
      getJob s jobId = (address0, address0, 0, 0, [], Created, 0)
      \<and> getJob_js s jobId = Some \<lparr>view_jobId = jobId, view_client = address0,
           view_worker = address0, view_amount = 0, view_deadline = 0, view_jobHash = [],
           view_status = Some ''Created'', view_createdAt = 0\<rparr>)
   \<and> (createJob H sender now wkr amt duration jh s0 = Inr (j, s1) \<longrightarrow>
        getJob s1 j = (sender, wkr, amt, now + duration, jh, Created, now)
        \<and> was_created s1 j)
   \<and> status_name Created = Some ''Created''"
proof (intro conjI impI)
  assume "reachable H s \<and> \<not> was_created s jobId"
  then have e: "jobs s jobId = empty_job"
    by (blast intro: reachable_never_created)
  then show g: "getJob s jobId = (address0, address0, 0, 0, [], Created, 0)"
    by (simp add: getJob_def address0_def)
  show "getJob_js s jobId = Some \<lparr>view_jobId = jobId, view_client = address0,
           view_worker = address0, view_amount = 0, view_deadline = 0, view_jobHash = [],
           view_status = Some ''Created'', view_createdAt = 0\<rparr>"
    by (simp add: getJob_js_def g js_date_def status_name_def JOB_STATUS_def)
next
  assume r: "createJob H sender now wkr amt duration jh s0 = Inr (j, s1)"
  then show "getJob s1 j = (sender, wkr, amt, now + duration, jh, Created, now)"
    by (simp add: createJob_Inr getJob_def)
  from r show "was_created s1 j"
    by (simp add: createJob_Inr was_created_def)
next
  show "status_name Created = Some ''Created''"
    by (simp add: status_name_def JOB_STATUS_def)
qed

theorem getJob_never_created_witness:
  "\<not> was_created demo_open 7
   \<and> getJob demo_open 7 = (address0, address0, 0, 0, [], Created, 0)
   \<and> view_status (the (getJob_js demo_open 7)) = Some ''Created''
   \<and> getJob demo_open 0 = (1, 0, 1000000, 2592100, ''h'', Created, 100)"
proof -
  have n: "\<not> was_created demo_open 7"
    by (simp add: was_created_def demo_open_eq)
  have e: "createJob counter_id 1 100 0 1000000 2592000 ''h'' demo_deployed
      = Inr (0, demo_open)"
    by (simp add: demo_open_eq eval_defs)
  note t = getJob_never_created [of counter_id demo_open 7 1 100 0 1000000 2592000 "''h''"
      demo_deployed 0 demo_open]
  from t reachable_demo_open n
  have a: "getJob demo_open 7 = (address0, address0, 0, 0, [], Created, 0)"
    and b: "getJob_js demo_open 7 = Some \<lparr>view_jobId = 7, view_client = address0,
           view_worker = address0, view_amount = 0, view_deadline = 0, view_jobHash = [],
           view_status = Some ''Created'', view_createdAt = 0\<rparr>"
    by blast+
  from b have b': "view_status (the (getJob_js demo_open 7)) = Some ''Created''"
    by simp
  from t e have "getJob demo_open 0 = (1, 0, 1000000, 100 + 2592000, ''h'', Created, 100)"
    by blast
  then have c: "getJob demo_open 0 = (1, 0, 1000000, 2592100, ''h'', Created, 100)"
    by simp
  from n a b' c show ?thesis by blast
qed


end
